theory Spec2Isabelle
  imports Main
begin

section \<open>The poll component (src/src/components/Poll.vue)\<close>

text \<open>
  The script block of \<^verbatim>\<open>Poll.vue\<close> is embedded as functions on an explicit component
  state. Every handler body is one atomic transition: the answers of the network, of
  the chart library and of the browser are parameters of the transition, so every
  \<^verbatim>\<open>try\<close>/\<^verbatim>\<open>catch\<close> branch of the source is a branch of the model. Interleavings of
  other handlers at the \<^verbatim>\<open>await\<close> points of \<^verbatim>\<open>fetchData\<close> and \<^verbatim>\<open>submitVote\<close> are
  not modelled.
\<close>

subsection \<open>JavaScript values\<close>

text \<open>
  Values that arrive as JSON. Numbers are integers (identifiers and vote counts).
  A \<open>jsval\<close> is a JSON value or \<^verbatim>\<open>undefined\<close> (\<open>None\<close>). The TypeScript annotations of
  the source are erased at run time, so the fields of an option hold whatever the
  server sent.
\<close>

datatype json =
    JNull
  | JBool bool
  | JNum int
  | JStr string
  | JArr "json list"
  | JObj "(string \<times> json) list"

type_synonym jsval = "json option"

datatype exn = NetworkError | TypeError

text \<open>JavaScript truthiness, as used by \<^verbatim>\<open>!x\<close> and \<^verbatim>\<open>a && b\<close>.\<close>

fun truthy :: "jsval \<Rightarrow> bool" where
  "truthy None = False"
| "truthy (Some JNull) = False"
| "truthy (Some (JBool b)) = b"
| "truthy (Some (JNum n)) = (n \<noteq> 0)"
| "truthy (Some (JStr s)) = (s \<noteq> [])"
| "truthy (Some (JArr xs)) = True"
| "truthy (Some (JObj kvs)) = True"

fun isArray :: "jsval \<Rightarrow> bool" where
  "isArray (Some (JArr xs)) = True"
| "isArray v = False"

text \<open>
  Property access \<^verbatim>\<open>v.k\<close> for the keys the source reads (\<^verbatim>\<open>Options\<close>, \<^verbatim>\<open>ID\<close>,
  \<^verbatim>\<open>Text\<close>, \<^verbatim>\<open>Votes\<close>): on \<^verbatim>\<open>null\<close> it throws a TypeError, on an object it is the
  member or \<^verbatim>\<open>undefined\<close>, on every other value it is \<^verbatim>\<open>undefined\<close>.
\<close>

fun get_prop :: "json \<Rightarrow> string \<Rightarrow> exn + jsval" where
  "get_prop JNull k = Inl TypeError"
| "get_prop (JObj kvs) k = Inr (map_of kvs k)"
| "get_prop v k = Inr None"

subsection \<open>Data model\<close>

text \<open>\<^verbatim>\<open>interface Option { id; text; votes }\<close>\<close>

record poll_option =
  opt_id :: jsval
  opt_text :: jsval
  opt_votes :: jsval

text \<open>
  A chart resource of the chart library: its category labels, the data of its single
  dataset, whether \<^verbatim>\<open>destroy()\<close> was called on it, and how often \<^verbatim>\<open>update()\<close> was.
\<close>

record chart_res =
  labels :: "jsval list"
  data :: "jsval list"
  destroyed :: bool
  update_calls :: nat

text \<open>
  An \<^verbatim>\<open>EventSource\<close> object: whether the script closed it and which handlers are
  attached to it.
\<close>

record conn =
  closed :: bool
  has_onmessage :: bool
  has_onerror :: bool

datatype timer_action = InitChart | Reconnect

record timer =
  due :: nat
  action :: timer_action

datatype request = GetPoll | VotePost jsval

datatype level = Info | Warning | Failure

text \<open>One constructor for each \<^verbatim>\<open>console\<close> call of the source.\<close>

datatype msg =
    Log_fetch_ok nat
  | Warn_fetch_format
  | Err_fetch_failed
  | Err_submit_failed
  | Warn_init_no_options
  | Err_init_no_canvas
  | Log_init_chart
  | Err_create_chart
  | Warn_update_no_chart
  | Warn_update_no_options
  | Err_update_chart
  | Log_mounted_ok nat
  | Warn_mounted_no_options
  | Log_sse_message
  | Warn_sse_format
  | Err_sse_parse
  | Err_sse_error
  | Log_sse_reconnecting
  | Log_sse_reconnected
  | Err_sse_reconnect_failed
  | Err_init_failed

fun level_of :: "msg \<Rightarrow> level" where
  "level_of (Log_fetch_ok n) = Info"
| "level_of Warn_fetch_format = Warning"
| "level_of Err_fetch_failed = Failure"
| "level_of Err_submit_failed = Failure"
| "level_of Warn_init_no_options = Warning"
| "level_of Err_init_no_canvas = Failure"
| "level_of Log_init_chart = Info"
| "level_of Err_create_chart = Failure"
| "level_of Warn_update_no_chart = Warning"
| "level_of Warn_update_no_options = Warning"
| "level_of Err_update_chart = Failure"
| "level_of (Log_mounted_ok n) = Info"
| "level_of Warn_mounted_no_options = Warning"
| "level_of Log_sse_message = Info"
| "level_of Warn_sse_format = Warning"
| "level_of Err_sse_parse = Failure"
| "level_of Err_sse_error = Failure"
| "level_of Log_sse_reconnecting = Info"
| "level_of Log_sse_reconnected = Info"
| "level_of Err_sse_reconnect_failed = Failure"
| "level_of Err_init_failed = Failure"

text \<open>
  The component state: the three refs and the \<^verbatim>\<open>chart\<close> variable of the source, the
  \<^verbatim>\<open>hasVoted\<close> entry of \<^verbatim>\<open>localStorage\<close>, the chart resources and connections created
  so far (a reference is an index), the \<^verbatim>\<open>eventSource\<close> variable of the mounted hook,
  the pending timers, the clock in milliseconds, and what the component has emitted:
  console lines and HTTP requests.
\<close>

record state =
  options :: "poll_option list"
  selected :: jsval
  hasVoted :: bool
  localStorage :: "string option"
  chart :: "nat option"
  charts :: "chart_res list"
  eventSource :: "nat option"
  conns :: "conn list"
  timers :: "timer list"
  now :: nat
  mounted :: bool
  console :: "msg list"
  requests :: "request list"

text \<open>
  What the surroundings answer during one transition: whether
  \<^verbatim>\<open>document.getElementById('chart')\<close> finds the canvas, whether \<^verbatim>\<open>new Chart\<close>,
  \<^verbatim>\<open>chart.update()\<close> and \<^verbatim>\<open>new EventSource\<close> return rather than throw.
\<close>

record env =
  canvas_found :: bool
  chart_ctor_ok :: bool
  chart_update_ok :: bool
  es_ctor_ok :: bool

datatype http_result = NetFail | NetOk json

datatype parse_result = ParseError | Parsed json

definition log :: "msg \<Rightarrow> state \<Rightarrow> state" where
  "log m s = s\<lparr>console := console s @ [m]\<rparr>"

text \<open>
  Initial state: \<^verbatim>\<open>hasVoted = ref(localStorage.getItem('hasVoted') === 'true')\<close>.
\<close>

definition init :: "string option \<Rightarrow> state" where
  "init ls = \<lparr>options = [], selected = None, hasVoted = (ls = Some ''true''),
     localStorage = ls, chart = None, charts = [], eventSource = None, conns = [],
     timers = [], now = 0, mounted = False, console = [], requests = []\<rparr>"

subsection \<open>fetchData\<close>

text \<open>The arrow function passed to \<^verbatim>\<open>map\<close> in \<^verbatim>\<open>fetchData\<close> and in \<^verbatim>\<open>onmessage\<close>.\<close>

definition convert :: "json \<Rightarrow> exn + poll_option" where
  "convert opt =
     (case get_prop opt ''ID'' of Inl e \<Rightarrow> Inl e | Inr i \<Rightarrow>
      case get_prop opt ''Text'' of Inl e \<Rightarrow> Inl e | Inr t \<Rightarrow>
      case get_prop opt ''Votes'' of Inl e \<Rightarrow> Inl e | Inr v \<Rightarrow>
        Inr \<lparr>opt_id = i, opt_text = t, opt_votes = v\<rparr>)"

text \<open>\<^verbatim>\<open>Array.prototype.map\<close> with a callback that may throw.\<close>

fun convert_all :: "json list \<Rightarrow> exn + poll_option list" where
  "convert_all [] = Inr []"
| "convert_all (x # xs) =
     (case convert x of Inl e \<Rightarrow> Inl e | Inr y \<Rightarrow>
      case convert_all xs of Inl e \<Rightarrow> Inl e | Inr ys \<Rightarrow> Inr (y # ys))"

text \<open>The \<^verbatim>\<open>catch\<close> block of \<^verbatim>\<open>fetchData\<close>: log, empty the options, rethrow.\<close>

definition fetch_catch :: "exn \<Rightarrow> state \<Rightarrow> (exn + unit) \<times> state" where
  "fetch_catch e s = (Inl e, (log Err_fetch_failed s)\<lparr>options := []\<rparr>)"

definition fetch_else :: "state \<Rightarrow> (exn + unit) \<times> state" where
  "fetch_else s = (Inr (), (log Warn_fetch_format s)\<lparr>options := []\<rparr>)"

definition fetchData :: "http_result \<Rightarrow> state \<Rightarrow> (exn + unit) \<times> state" where
  "fetchData r s =
     (let s0 = s\<lparr>requests := requests s @ [GetPoll]\<rparr> in
      case r of
        NetFail \<Rightarrow> fetch_catch NetworkError s0
      | NetOk d \<Rightarrow>
          if truthy (Some d) then
            (case get_prop d ''Options'' of
               Inl e \<Rightarrow> fetch_catch e s0
             | Inr v \<Rightarrow>
                 if truthy v \<and> isArray v then
                   (case v of
                      Some (JArr xs) \<Rightarrow>
                        (case convert_all xs of
                           Inl e \<Rightarrow> fetch_catch e s0
                         | Inr os \<Rightarrow>
                             (Inr (), log (Log_fetch_ok (length os)) (s0\<lparr>options := os\<rparr>)))
                    | _ \<Rightarrow> fetch_else s0)
                 else fetch_else s0)
          else fetch_else s0)"

subsection \<open>Chart: initChart and updateChart\<close>

definition initChart :: "env \<Rightarrow> state \<Rightarrow> state" where
  "initChart e s =
     (if options s = [] then log Warn_init_no_options s
      else if \<not> canvas_found e then log Err_init_no_canvas s
      else
        let s1 = (case chart s of
                    None \<Rightarrow> s
                  | Some k \<Rightarrow> s\<lparr>charts := (charts s)[k := (charts s ! k)\<lparr>destroyed := True\<rparr>]\<rparr>);
            s2 = log Log_init_chart s1
        in if chart_ctor_ok e then
             s2\<lparr>charts := charts s2 @
                   [\<lparr>labels = map opt_text (options s2), data = map opt_votes (options s2),
                     destroyed = False, update_calls = 0\<rparr>],
                chart := Some (length (charts s2))\<rparr>
           else log Err_create_chart s2)"

definition updateChart :: "env \<Rightarrow> state \<Rightarrow> state" where
  "updateChart e s =
     (case chart s of
        None \<Rightarrow> log Warn_update_no_chart s
      | Some k \<Rightarrow>
          if options s = [] then log Warn_update_no_options s
          else
            let c = charts s ! k;
                c' = c\<lparr>labels := map opt_text (options s), data := map opt_votes (options s),
                       update_calls := update_calls c + 1\<rparr>;
                s1 = s\<lparr>charts := (charts s)[k := c']\<rparr>
            in if chart_update_ok e then s1 else log Err_update_chart s1)"

subsection \<open>submitVote\<close>

definition submitVote :: "env \<Rightarrow> bool \<Rightarrow> http_result \<Rightarrow> state \<Rightarrow> state" where
  "submitVote e post_ok r s =
     (if \<not> truthy (selected s) \<or> hasVoted s then s
      else
        let s1 = s\<lparr>requests := requests s @ [VotePost (selected s)]\<rparr> in
        if \<not> post_ok then log Err_submit_failed s1
        else
          let s2 = s1\<lparr>hasVoted := True, localStorage := Some ''true''\<rparr> in
          case fetchData r s2 of
            (Inl err, s3) \<Rightarrow> log Err_submit_failed s3
          | (Inr u, s3) \<Rightarrow> updateChart e s3)"

subsection \<open>The mounted hook and the push connection\<close>

definition onmessage :: "env \<Rightarrow> parse_result \<Rightarrow> state \<Rightarrow> state" where
  "onmessage e p s =
     (let s0 = log Log_sse_message s in
      case p of
        ParseError \<Rightarrow> log Err_sse_parse s0
      | Parsed d \<Rightarrow>
          (case d of
             JArr xs \<Rightarrow>
               if xs \<noteq> [] then
                 (case convert_all xs of
                    Inl err \<Rightarrow> log Err_sse_parse s0
                  | Inr os \<Rightarrow> updateChart e (s0\<lparr>options := os\<rparr>))
               else log Warn_sse_format s0
           | _ \<Rightarrow> log Warn_sse_format s0))"

text \<open>\<^verbatim>\<open>onerror\<close>: log and \<^verbatim>\<open>setTimeout(..., 5000)\<close>.\<close>

definition onerror :: "state \<Rightarrow> state" where
  "onerror s =
     (log Err_sse_error s)\<lparr>timers := timers s @ [\<lparr>due = now s + 5000, action = Reconnect\<rparr>]\<rparr>"

text \<open>
  The callback of that timer. It closes whatever the variable \<^verbatim>\<open>eventSource\<close> holds
  when it runs, then assigns a new \<^verbatim>\<open>EventSource\<close> to the variable. No handler is
  assigned to the new object.
\<close>

definition reconnect :: "env \<Rightarrow> state \<Rightarrow> state" where
  "reconnect e s =
     (let s0 = log Log_sse_reconnecting s;
          s1 = (case eventSource s0 of
                  None \<Rightarrow> s0
                | Some k \<Rightarrow> s0\<lparr>conns := (conns s0)[k := (conns s0 ! k)\<lparr>closed := True\<rparr>]\<rparr>)
      in if es_ctor_ok e then
           log Log_sse_reconnected
             (s1\<lparr>conns := conns s1 @ [\<lparr>closed = False, has_onmessage = False, has_onerror = False\<rparr>],
                 eventSource := Some (length (conns s1))\<rparr>)
         else log Err_sse_reconnect_failed s1)"

definition onMounted :: "env \<Rightarrow> http_result \<Rightarrow> state \<Rightarrow> state" where
  "onMounted e r s =
     (case fetchData r s of
        (Inl err, s1) \<Rightarrow> log Err_init_failed s1
      | (Inr u, s1) \<Rightarrow>
          let s2 = (if options s1 \<noteq> [] then
                      (log (Log_mounted_ok (length (options s1))) s1)
                        \<lparr>timers := timers s1 @ [\<lparr>due = now s1 + 100, action = InitChart\<rparr>]\<rparr>
                    else log Warn_mounted_no_options s1)
          in if es_ctor_ok e then
               s2\<lparr>conns := conns s2 @ [\<lparr>closed = False, has_onmessage = True, has_onerror = True\<rparr>],
                  eventSource := Some (length (conns s2))\<rparr>
             else log Err_init_failed s2)"

subsection \<open>Events\<close>

text \<open>
  What can happen to the component: it is mounted (once), the user clicks the
  \<open>i\<close>-th option row, the user presses the button, a message or an error event is
  delivered on connection \<open>c\<close>, time passes, the \<open>i\<close>-th pending timer fires.
\<close>

datatype event =
    Mounted http_result
  | Click nat
  | SubmitVote bool http_result
  | SseMessage nat parse_result
  | SseError nat
  | Tick nat
  | TimerFire nat

text \<open>Template: \<^verbatim>\<open>@click="!hasVoted && (selected = opt.id)"\<close>.\<close>

definition click :: "nat \<Rightarrow> state \<Rightarrow> state" where
  "click i s =
     (if i < length (options s) \<and> \<not> hasVoted s
      then s\<lparr>selected := opt_id (options s ! i)\<rparr> else s)"

definition remove_nth :: "nat \<Rightarrow> 'a list \<Rightarrow> 'a list" where
  "remove_nth i xs = take i xs @ drop (Suc i) xs"

definition fire :: "env \<Rightarrow> nat \<Rightarrow> state \<Rightarrow> state" where
  "fire e i s =
     (if i < length (timers s) \<and> due (timers s ! i) \<le> now s then
        let t = timers s ! i;
            s1 = s\<lparr>timers := remove_nth i (timers s)\<rparr>
        in (case action t of InitChart \<Rightarrow> initChart e s1 | Reconnect \<Rightarrow> reconnect e s1)
      else s)"

text \<open>
  An event of a connection reaches a handler only if the connection exists, the script
  has not closed it, and the handler is attached to that object.
\<close>

definition step :: "env \<Rightarrow> event \<Rightarrow> state \<Rightarrow> state" where
  "step e ev s =
     (case ev of
        Mounted r \<Rightarrow> if mounted s then s else onMounted e r (s\<lparr>mounted := True\<rparr>)
      | Click i \<Rightarrow> click i s
      | SubmitVote post_ok r \<Rightarrow> submitVote e post_ok r s
      | SseMessage c p \<Rightarrow>
          if c < length (conns s) \<and> \<not> closed (conns s ! c) \<and> has_onmessage (conns s ! c)
          then onmessage e p s else s
      | SseError c \<Rightarrow>
          if c < length (conns s) \<and> \<not> closed (conns s ! c) \<and> has_onerror (conns s ! c)
          then onerror s else s
      | Tick d \<Rightarrow> s\<lparr>now := now s + d\<rparr>
      | TimerFire i \<Rightarrow> fire e i s)"

fun run :: "(env \<times> event) list \<Rightarrow> state \<Rightarrow> state" where
  "run [] s = s"
| "run ((e, ev) # evs) s = run evs (step e ev s)"

subsection \<open>Invariants of the reachable states\<close>

text \<open>
  Every connection except the one the variable \<^verbatim>\<open>eventSource\<close> holds is closed, and
  before the hook has run there is neither a connection nor a timer.
\<close>

definition conn_inv :: "state \<Rightarrow> bool" where
  "conn_inv s =
     ((case eventSource s of
         None \<Rightarrow> conns s = []
       | Some k \<Rightarrow> k < length (conns s) \<and> (\<forall>i<length (conns s). i \<noteq> k \<longrightarrow> closed (conns s ! i)))
      \<and> (\<not> mounted s \<longrightarrow> conns s = [] \<and> timers s = []))"

text \<open>Every chart resource except the one the variable \<^verbatim>\<open>chart\<close> holds is destroyed.\<close>

definition chart_inv :: "state \<Rightarrow> bool" where
  "chart_inv s =
     (case chart s of
        None \<Rightarrow> charts s = []
      | Some k \<Rightarrow> k < length (charts s) \<and> (\<forall>i<length (charts s). i \<noteq> k \<longrightarrow> destroyed (charts s ! i)))"

text \<open>Only connection 0, the one the hook creates, ever carries handlers.\<close>

definition handler_inv :: "state \<Rightarrow> bool" where
  "handler_inv s =
     (\<forall>i<length (conns s). 0 < i \<longrightarrow> \<not> has_onmessage (conns s ! i) \<and> \<not> has_onerror (conns s ! i))"

definition vote_inv :: "state \<Rightarrow> bool" where
  "vote_inv s = (\<forall>v. VotePost v \<in> set (requests s) \<longrightarrow> truthy v)"

definition live_conns :: "state \<Rightarrow> conn list" where
  "live_conns s = filter (\<lambda>c. \<not> closed c) (conns s)"

definition live_charts :: "state \<Rightarrow> chart_res list" where
  "live_charts s = filter (\<lambda>c. \<not> destroyed c) (charts s)"

subsection \<open>The canonical snapshot, in the words of the interface description\<close>

text \<open>
  A record \<^verbatim>\<open>{ID, Text, Votes}\<close> of the server becomes the option with \<open>id\<close> from
  \<^verbatim>\<open>ID\<close>, \<open>text\<close> from \<^verbatim>\<open>Text\<close> and \<open>votes\<close> from \<^verbatim>\<open>Votes\<close>; a member that is
  missing is \<^verbatim>\<open>undefined\<close>.
\<close>

fun member_of :: "json \<Rightarrow> string \<Rightarrow> jsval" where
  "member_of (JObj kvs) k = map_of kvs k"
| "member_of v k = None"

definition canonical :: "json \<Rightarrow> poll_option" where
  "canonical x = \<lparr>opt_id = member_of x ''ID'', opt_text = member_of x ''Text'',
                   opt_votes = member_of x ''Votes''\<rparr>"

subsection \<open>Concrete inputs\<close>

definition env_ok :: env where
  "env_ok = \<lparr>canvas_found = True, chart_ctor_ok = True, chart_update_ok = True, es_ctor_ok = True\<rparr>"

definition server_record :: "int \<Rightarrow> string \<Rightarrow> int \<Rightarrow> json" where
  "server_record i t v = JObj [(''ID'', JNum i), (''Text'', JStr t), (''Votes'', JNum v)]"

definition poll_opt :: "int \<Rightarrow> string \<Rightarrow> int \<Rightarrow> poll_option" where
  "poll_opt i t v = \<lparr>opt_id = Some (JNum i), opt_text = Some (JStr t), opt_votes = Some (JNum v)\<rparr>"

text \<open>The responses and the push message of scenarios A, B and D.\<close>

definition scenario_A :: json where
  "scenario_A = JObj [(''Options'', JArr [server_record 1 ''Go'' 3, server_record 2 ''Rust'' 5])]"

definition scenario_B :: json where
  "scenario_B = JObj []"

definition scenario_D :: json where
  "scenario_D = JArr [server_record 1 ''Go'' 4, server_record 2 ''Rust'' 5]"

text \<open>
  Event traces: a successful activation; then the chart is created; then either one
  transport error and the reconnection it schedules, or a vote for the second option
  whose refetch returns a body without \<^verbatim>\<open>Options\<close>.
\<close>

definition trace_mounted :: "(env \<times> event) list" where
  "trace_mounted = [(env_ok, Mounted (NetOk scenario_A))]"

definition trace_charted :: "(env \<times> event) list" where
  "trace_charted = trace_mounted @ [(env_ok, Tick 100), (env_ok, TimerFire 0)]"

definition trace_reconnected :: "(env \<times> event) list" where
  "trace_reconnected =
     trace_charted @ [(env_ok, SseError 0), (env_ok, Tick 5000), (env_ok, TimerFire 0)]"

definition trace_voted :: "(env \<times> event) list" where
  "trace_voted = trace_charted @ [(env_ok, Click 1), (env_ok, SubmitVote True (NetOk scenario_B))]"

definition mounted_A :: state where
  "mounted_A = run trace_mounted (init None)"

definition charted_A :: state where
  "charted_A = run trace_charted (init None)"

definition reconnected_A :: state where
  "reconnected_A = run trace_reconnected (init None)"

definition voted_B :: state where
  "voted_B = run trace_voted (init None)"

text \<open>
  A poll whose first option has the identifier 0, and the component after the user has
  clicked that option.
\<close>

definition scenario_Z :: json where
  "scenario_Z = JObj [(''Options'', JArr [server_record 0 ''C'' 1, server_record 1 ''Go'' 3])]"

definition trace_zero :: "(env \<times> event) list" where
  "trace_zero = [(env_ok, Mounted (NetOk scenario_Z)), (env_ok, Click 0)]"

definition selected_zero :: state where
  "selected_zero = run trace_zero (init None)"

section \<open>Properties\<close>

subsection \<open>What each operation leaves unchanged\<close>

lemma filter_all_but_one:
  "\<forall>i<length xs. i \<noteq> k \<longrightarrow> \<not> P (xs ! i) \<Longrightarrow> length (filter P xs) \<le> Suc 0"
proof (induction xs arbitrary: k)
  case Nil
  then show ?case by simp
next
  case (Cons x xs)
  show ?case
  proof (cases k)
    case 0
    have "\<forall>y\<in>set xs. \<not> P y"
    proof
      fix y assume "y \<in> set xs"
      then obtain j where j: "j < length xs" "xs ! j = y" by (auto simp: in_set_conv_nth)
      with Cons.prems 0 have "\<not> P ((x # xs) ! Suc j)" by (metis Suc_less_eq length_Cons nat.distinct(1))
      with j show "\<not> P y" by simp
    qed
    then have "filter P xs = []" by (simp add: filter_empty_conv)
    then show ?thesis by simp
  next
    case (Suc k')
    from Cons.prems Suc have "\<not> P x" by force
    moreover have "\<forall>i<length xs. i \<noteq> k' \<longrightarrow> \<not> P (xs ! i)"
    proof (intro allI impI)
      fix i assume "i < length xs" "i \<noteq> k'"
      with Cons.prems Suc have "\<not> P ((x # xs) ! Suc i)" by (metis Suc_less_eq length_Cons nat.inject)
      then show "\<not> P (xs ! i)" by simp
    qed
    ultimately show ?thesis using Cons.IH[of k'] by simp
  qed
qed

lemma convert_nonnull: "x \<noteq> JNull \<Longrightarrow> convert x = Inr (canonical x)"
  by (cases x) (simp_all add: convert_def canonical_def)

lemma convert_null: "convert JNull = Inl TypeError"
  by (simp add: convert_def)

lemma convert_all_nonnull: "JNull \<notin> set xs \<Longrightarrow> convert_all xs = Inr (map canonical xs)"
  by (induction xs) (auto simp: convert_nonnull)

lemma fetchData_frame:
  "selected (snd (fetchData r s)) = selected s"
  "hasVoted (snd (fetchData r s)) = hasVoted s"
  "localStorage (snd (fetchData r s)) = localStorage s"
  "chart (snd (fetchData r s)) = chart s"
  "charts (snd (fetchData r s)) = charts s"
  "eventSource (snd (fetchData r s)) = eventSource s"
  "conns (snd (fetchData r s)) = conns s"
  "timers (snd (fetchData r s)) = timers s"
  "now (snd (fetchData r s)) = now s"
  "mounted (snd (fetchData r s)) = mounted s"
  "requests (snd (fetchData r s)) = requests s @ [GetPoll]"
  by (simp_all add: fetchData_def fetch_catch_def fetch_else_def log_def Let_def
      split: http_result.splits sum.splits option.splits json.splits)

lemma updateChart_frame:
  "options (updateChart e s) = options s"
  "selected (updateChart e s) = selected s"
  "hasVoted (updateChart e s) = hasVoted s"
  "localStorage (updateChart e s) = localStorage s"
  "chart (updateChart e s) = chart s"
  "eventSource (updateChart e s) = eventSource s"
  "conns (updateChart e s) = conns s"
  "timers (updateChart e s) = timers s"
  "now (updateChart e s) = now s"
  "mounted (updateChart e s) = mounted s"
  "requests (updateChart e s) = requests s"
  "length (charts (updateChart e s)) = length (charts s)"
  by (simp_all add: updateChart_def log_def Let_def split: option.splits)

lemma initChart_frame:
  "options (initChart e s) = options s"
  "selected (initChart e s) = selected s"
  "hasVoted (initChart e s) = hasVoted s"
  "localStorage (initChart e s) = localStorage s"
  "eventSource (initChart e s) = eventSource s"
  "conns (initChart e s) = conns s"
  "timers (initChart e s) = timers s"
  "now (initChart e s) = now s"
  "mounted (initChart e s) = mounted s"
  "requests (initChart e s) = requests s"
  by (simp_all add: initChart_def log_def Let_def split: option.splits)

lemma reconnect_frame:
  "options (reconnect e s) = options s"
  "selected (reconnect e s) = selected s"
  "hasVoted (reconnect e s) = hasVoted s"
  "localStorage (reconnect e s) = localStorage s"
  "chart (reconnect e s) = chart s"
  "charts (reconnect e s) = charts s"
  "timers (reconnect e s) = timers s"
  "now (reconnect e s) = now s"
  "mounted (reconnect e s) = mounted s"
  "requests (reconnect e s) = requests s"
  by (simp_all add: reconnect_def log_def Let_def split: option.splits)

lemma onmessage_frame:
  "selected (onmessage e p s) = selected s"
  "hasVoted (onmessage e p s) = hasVoted s"
  "localStorage (onmessage e p s) = localStorage s"
  "chart (onmessage e p s) = chart s"
  "eventSource (onmessage e p s) = eventSource s"
  "conns (onmessage e p s) = conns s"
  "timers (onmessage e p s) = timers s"
  "now (onmessage e p s) = now s"
  "mounted (onmessage e p s) = mounted s"
  "requests (onmessage e p s) = requests s"
  "length (charts (onmessage e p s)) = length (charts s)"
  by (simp_all add: onmessage_def updateChart_frame log_def Let_def
      split: parse_result.splits json.splits sum.splits)

lemma submitVote_frame:
  "chart (submitVote e p r s) = chart s"
  "eventSource (submitVote e p r s) = eventSource s"
  "conns (submitVote e p r s) = conns s"
  "timers (submitVote e p r s) = timers s"
  "now (submitVote e p r s) = now s"
  "mounted (submitVote e p r s) = mounted s"
  "length (charts (submitVote e p r s)) = length (charts s)"
  by (simp_all add: submitVote_def log_def Let_def case_prod_beta fetchData_frame updateChart_frame
      split: sum.splits)

lemma onMounted_frame:
  "selected (onMounted e r s) = selected s"
  "hasVoted (onMounted e r s) = hasVoted s"
  "localStorage (onMounted e r s) = localStorage s"
  "chart (onMounted e r s) = chart s"
  "charts (onMounted e r s) = charts s"
  "now (onMounted e r s) = now s"
  "mounted (onMounted e r s) = mounted s"
  "requests (onMounted e r s) = requests s @ [GetPoll]"
  by (simp_all add: onMounted_def log_def Let_def case_prod_beta fetchData_frame
      split: sum.splits)

lemma fire_frame:
  "selected (fire e i s) = selected s"
  "hasVoted (fire e i s) = hasVoted s"
  "localStorage (fire e i s) = localStorage s"
  "now (fire e i s) = now s"
  "mounted (fire e i s) = mounted s"
  "requests (fire e i s) = requests s"
  by (simp_all add: fire_def Let_def initChart_frame reconnect_frame split: timer_action.splits)

subsection \<open>The voted flag\<close>

lemma submitVote_hasVoted:
  "hasVoted (submitVote e p r s) = (hasVoted s \<or> truthy (selected s) \<and> p)"
  by (auto simp add: submitVote_def log_def Let_def case_prod_beta fetchData_frame updateChart_frame
      split: sum.splits)

lemma submitVote_localStorage:
  "localStorage (submitVote e p r s) =
     (if \<not> hasVoted s \<and> truthy (selected s) \<and> p then Some ''true'' else localStorage s)"
  by (simp add: submitVote_def log_def Let_def case_prod_beta fetchData_frame updateChart_frame
      split: sum.splits)

lemma step_hasVoted_mono: "hasVoted s \<Longrightarrow> hasVoted (step e ev s)"
  by (cases ev)
    (simp_all add: step_def click_def submitVote_hasVoted onmessage_frame onMounted_frame fire_frame
      onerror_def log_def)

lemma run_hasVoted_mono: "hasVoted s \<Longrightarrow> hasVoted (run evs s)"
proof (induction evs arbitrary: s)
  case Nil
  then show ?case by simp
next
  case (Cons a evs)
  obtain e ev where a: "a = (e, ev)" by (cases a)
  from Cons.prems have "hasVoted (step e ev s)" by (rule step_hasVoted_mono)
  then show ?case using Cons.IH a by simp
qed

lemma step_only_writer:
  "\<forall>p r. ev \<noteq> SubmitVote p r \<Longrightarrow>
     hasVoted (step e ev s) = hasVoted s \<and> localStorage (step e ev s) = localStorage s"
  by (cases ev)
    (auto simp add: step_def click_def onmessage_frame onMounted_frame fire_frame
      onerror_def log_def)

lemma step_persist:
  "hasVoted s = (localStorage s = Some ''true'') \<Longrightarrow>
     hasVoted (step e ev s) = (localStorage (step e ev s) = Some ''true'')"
  by (cases ev)
    (auto simp add: step_def click_def onmessage_frame onMounted_frame fire_frame
      onerror_def log_def submitVote_hasVoted submitVote_localStorage)

lemma run_persist:
  "hasVoted s = (localStorage s = Some ''true'') \<Longrightarrow>
     hasVoted (run evs s) = (localStorage (run evs s) = Some ''true'')"
proof (induction evs arbitrary: s)
  case Nil
  then show ?case by simp
next
  case (Cons a evs)
  obtain e ev where a: "a = (e, ev)" by (cases a)
  from Cons.prems have "hasVoted (step e ev s) = (localStorage (step e ev s) = Some ''true'')"
    by (rule step_persist)
  then show ?case using Cons.IH a by simp
qed

subsection \<open>At most one open connection\<close>

lemma reconnect_conn_inv: "conn_inv s \<Longrightarrow> mounted s \<Longrightarrow> conn_inv (reconnect e s)"
  by (auto simp: conn_inv_def reconnect_def log_def Let_def nth_append nth_list_update
      split: option.splits)

lemma onMounted_conn_inv:
  "conns s = [] \<Longrightarrow> eventSource s = None \<Longrightarrow> mounted s \<Longrightarrow> conn_inv (onMounted e r s)"
  by (auto simp: conn_inv_def onMounted_def log_def Let_def case_prod_beta fetchData_frame
      split: sum.splits option.splits)

lemma conn_inv_cong:
  "conn_inv s \<Longrightarrow> eventSource s' = eventSource s \<Longrightarrow> conns s' = conns s \<Longrightarrow>
   mounted s' = mounted s \<Longrightarrow> (\<not> mounted s \<Longrightarrow> timers s' = []) \<Longrightarrow> conn_inv s'"
  by (auto simp: conn_inv_def split: option.splits)

lemma step_conn_inv: "conn_inv s \<Longrightarrow> conn_inv (step e ev s)"
proof (cases ev)
  case (Mounted r)
  assume inv: "conn_inv s"
  show ?thesis
  proof (cases "mounted s")
    case True
    with Mounted inv show ?thesis by (simp add: step_def)
  next
    case False
    with inv have "conns s = []" "eventSource s = None"
      by (auto simp: conn_inv_def split: option.splits)
    then have "conn_inv (onMounted e r (s\<lparr>mounted := True\<rparr>))"
      by (intro onMounted_conn_inv) simp_all
    with Mounted False show ?thesis by (simp add: step_def)
  qed
next
  case (Click i)
  assume "conn_inv s"
  then show ?thesis using Click
    by (auto simp: step_def click_def conn_inv_def split: option.splits)
next
  case (SubmitVote p r)
  assume inv: "conn_inv s"
  then have "conn_inv (submitVote e p r s)"
    by (rule conn_inv_cong) (insert inv, simp_all add: submitVote_frame conn_inv_def)
  then show ?thesis using SubmitVote by (simp add: step_def)
next
  case (SseMessage c p)
  assume inv: "conn_inv s"
  then have "conn_inv (onmessage e p s)"
    by (rule conn_inv_cong) (insert inv, simp_all add: onmessage_frame conn_inv_def)
  then show ?thesis using SseMessage inv by (simp add: step_def)
next
  case (SseError c)
  assume inv: "conn_inv s"
  then show ?thesis using SseError
    by (auto simp: step_def onerror_def log_def conn_inv_def split: option.splits)
next
  case (Tick d)
  assume "conn_inv s"
  then show ?thesis using Tick by (auto simp: step_def conn_inv_def split: option.splits)
next
  case (TimerFire i)
  assume inv: "conn_inv s"
  show ?thesis
  proof (cases "i < length (timers s) \<and> due (timers s ! i) \<le> now s")
    case False
    with TimerFire inv show ?thesis by (auto simp: step_def fire_def)
  next
    case True
    with inv have m: "mounted s" by (auto simp: conn_inv_def)
    let ?s1 = "s\<lparr>timers := remove_nth i (timers s)\<rparr>"
    from inv m have inv1: "conn_inv ?s1" by (auto simp: conn_inv_def split: option.splits)
    show ?thesis
    proof (cases "action (timers s ! i)")
      case InitChart
      from inv1 have "conn_inv (initChart e ?s1)"
        by (rule conn_inv_cong) (simp_all add: initChart_frame m)
      with TimerFire True InitChart show ?thesis by (simp add: step_def fire_def Let_def)
    next
      case Reconnect
      from inv1 m have "conn_inv (reconnect e ?s1)" by (intro reconnect_conn_inv) simp_all
      with TimerFire True Reconnect show ?thesis by (simp add: step_def fire_def Let_def)
    qed
  qed
qed

lemma run_conn_inv: "conn_inv s \<Longrightarrow> conn_inv (run evs s)"
proof (induction evs arbitrary: s)
  case Nil
  then show ?case by simp
next
  case (Cons a evs)
  obtain e ev where a: "a = (e, ev)" by (cases a)
  from Cons.prems have "conn_inv (step e ev s)" by (rule step_conn_inv)
  then show ?case using Cons.IH a by simp
qed

lemma init_conn_inv: "conn_inv (init ls)"
  by (simp add: conn_inv_def init_def)

lemma conn_inv_live: "conn_inv s \<Longrightarrow> length (live_conns s) \<le> Suc 0"
proof (cases "eventSource s")
  case None
  assume "conn_inv s"
  with None show ?thesis by (simp add: conn_inv_def live_conns_def)
next
  case (Some k)
  assume "conn_inv s"
  with Some have "\<forall>i<length (conns s). i \<noteq> k \<longrightarrow> \<not> (\<not> closed (conns s ! i))"
    by (simp add: conn_inv_def)
  then show ?thesis unfolding live_conns_def by (rule filter_all_but_one)
qed

subsection \<open>At most one live chart\<close>

lemma updateChart_chart_inv: "chart_inv s \<Longrightarrow> chart_inv (updateChart e s)"
  by (auto simp: chart_inv_def updateChart_def log_def Let_def nth_list_update split: option.splits)

lemma initChart_chart_inv: "chart_inv s \<Longrightarrow> chart_inv (initChart e s)"
  by (auto simp: chart_inv_def initChart_def log_def Let_def nth_append nth_list_update
      split: option.splits)

lemma chart_inv_cong:
  "chart_inv s \<Longrightarrow> chart s' = chart s \<Longrightarrow> charts s' = charts s \<Longrightarrow> chart_inv s'"
  by (auto simp: chart_inv_def split: option.splits)

lemma fetchData_chart_inv: "chart_inv s \<Longrightarrow> chart_inv (snd (fetchData r s))"
  by (erule chart_inv_cong) (simp_all add: fetchData_frame)

lemma submitVote_chart_inv: "chart_inv s \<Longrightarrow> chart_inv (submitVote e p r s)"
proof -
  assume inv: "chart_inv s"
  let ?s2 = "s\<lparr>requests := requests s @ [VotePost (selected s)], hasVoted := True,
                localStorage := Some ''true''\<rparr>"
  from inv have "chart_inv ?s2" by (rule chart_inv_cong) simp_all
  then have f: "chart_inv (snd (fetchData r ?s2))" by (rule fetchData_chart_inv)
  then have u: "chart_inv (updateChart e (snd (fetchData r ?s2)))" by (rule updateChart_chart_inv)
  from f have l: "chart_inv (log Err_submit_failed (snd (fetchData r ?s2)))"
    by (rule chart_inv_cong) (simp_all add: log_def)
  from inv have l0: "chart_inv (log Err_submit_failed (s\<lparr>requests := requests s @ [VotePost (selected s)]\<rparr>))"
    by (rule chart_inv_cong) (simp_all add: log_def)
  show ?thesis using inv u l l0
    by (simp add: submitVote_def Let_def case_prod_beta split: sum.splits)
qed

lemma onmessage_chart_inv: "chart_inv s \<Longrightarrow> chart_inv (onmessage e p s)"
proof -
  assume inv: "chart_inv s"
  have l: "\<And>m. chart_inv (log m (log Log_sse_message s))"
    by (rule chart_inv_cong[OF inv]) (simp_all add: log_def)
  have "\<And>os. chart_inv ((log Log_sse_message s)\<lparr>options := os\<rparr>)"
    by (rule chart_inv_cong[OF inv]) (simp_all add: log_def)
  then have u: "\<And>os. chart_inv (updateChart e ((log Log_sse_message s)\<lparr>options := os\<rparr>))"
    by (rule updateChart_chart_inv)
  show ?thesis using l u
    by (simp add: onmessage_def Let_def split: parse_result.splits json.splits sum.splits)
qed

lemma step_chart_inv: "chart_inv s \<Longrightarrow> chart_inv (step e ev s)"
proof (cases ev)
  case (Mounted r)
  assume inv: "chart_inv s"
  then have "chart_inv (onMounted e r (s\<lparr>mounted := True\<rparr>))"
    by (rule chart_inv_cong) (simp_all add: onMounted_frame)
  with Mounted inv show ?thesis by (simp add: step_def)
next
  case (Click i)
  assume "chart_inv s"
  then have "chart_inv (click i s)" by (rule chart_inv_cong) (simp_all add: click_def)
  then show ?thesis using Click by (simp add: step_def)
next
  case (SubmitVote p r)
  assume "chart_inv s"
  then show ?thesis using SubmitVote by (simp add: step_def submitVote_chart_inv)
next
  case (SseMessage c p)
  assume "chart_inv s"
  then show ?thesis using SseMessage by (simp add: step_def onmessage_chart_inv)
next
  case (SseError c)
  assume "chart_inv s"
  then have "chart_inv (onerror s)" by (rule chart_inv_cong) (simp_all add: onerror_def log_def)
  then show ?thesis using SseError \<open>chart_inv s\<close> by (simp add: step_def)
next
  case (Tick d)
  assume "chart_inv s"
  then have "chart_inv (s\<lparr>now := now s + d\<rparr>)" by (rule chart_inv_cong) simp_all
  then show ?thesis using Tick by (simp add: step_def)
next
  case (TimerFire i)
  assume inv: "chart_inv s"
  let ?s1 = "s\<lparr>timers := remove_nth i (timers s)\<rparr>"
  from inv have inv1: "chart_inv ?s1" by (rule chart_inv_cong) simp_all
  then have a: "chart_inv (initChart e ?s1)" by (rule initChart_chart_inv)
  from inv1 have b: "chart_inv (reconnect e ?s1)"
    by (rule chart_inv_cong) (simp_all add: reconnect_frame)
  show ?thesis using TimerFire inv a b
    by (simp add: step_def fire_def Let_def split: timer_action.splits)
qed

lemma run_chart_inv: "chart_inv s \<Longrightarrow> chart_inv (run evs s)"
proof (induction evs arbitrary: s)
  case Nil
  then show ?case by simp
next
  case (Cons a evs)
  obtain e ev where a: "a = (e, ev)" by (cases a)
  from Cons.prems have "chart_inv (step e ev s)" by (rule step_chart_inv)
  then show ?case using Cons.IH a by simp
qed

lemma init_chart_inv: "chart_inv (init ls)"
  by (simp add: chart_inv_def init_def)

lemma chart_inv_live: "chart_inv s \<Longrightarrow> length (live_charts s) \<le> Suc 0"
proof (cases "chart s")
  case None
  assume "chart_inv s"
  with None show ?thesis by (simp add: chart_inv_def live_charts_def)
next
  case (Some k)
  assume "chart_inv s"
  with Some have "\<forall>i<length (charts s). i \<noteq> k \<longrightarrow> \<not> (\<not> destroyed (charts s ! i))"
    by (simp add: chart_inv_def)
  then show ?thesis unfolding live_charts_def by (rule filter_all_but_one)
qed

subsection \<open>Vote requests carry a truthy identifier\<close>

lemma vote_inv_cong: "vote_inv s \<Longrightarrow> set (requests s') \<subseteq> insert GetPoll (set (requests s)) \<Longrightarrow> vote_inv s'"
  by (auto simp: vote_inv_def)

lemma submitVote_requests:
  "set (requests (submitVote e p r s)) \<subseteq>
     insert GetPoll (set (requests s)) \<union> (if truthy (selected s) then {VotePost (selected s)} else {})"
  by (auto simp: submitVote_def log_def Let_def case_prod_beta fetchData_frame updateChart_frame
      split: sum.splits)

lemma submitVote_vote_inv: "vote_inv s \<Longrightarrow> vote_inv (submitVote e p r s)"
  using submitVote_requests[of e p r s] by (auto simp: vote_inv_def split: if_splits)

lemma step_vote_inv: "vote_inv s \<Longrightarrow> vote_inv (step e ev s)"
proof (cases ev)
  case (SubmitVote p r)
  assume "vote_inv s"
  then show ?thesis using SubmitVote by (simp add: step_def submitVote_vote_inv)
next
  case (Mounted r)
  assume inv: "vote_inv s"
  then have "vote_inv (onMounted e r (s\<lparr>mounted := True\<rparr>))"
    by (rule vote_inv_cong) (auto simp: onMounted_frame)
  with Mounted inv show ?thesis by (simp add: step_def)
next
  case (Click i)
  assume "vote_inv s"
  then show ?thesis using Click by (simp add: step_def click_def vote_inv_def)
next
  case (SseMessage c p)
  assume inv: "vote_inv s"
  then have "vote_inv (onmessage e p s)"
    by (rule vote_inv_cong) (auto simp: onmessage_frame)
  then show ?thesis using SseMessage inv by (simp add: step_def)
next
  case (SseError c)
  assume "vote_inv s"
  then show ?thesis using SseError by (simp add: step_def onerror_def log_def vote_inv_def)
next
  case (Tick d)
  assume "vote_inv s"
  then show ?thesis using Tick by (simp add: step_def vote_inv_def)
next
  case (TimerFire i)
  assume inv: "vote_inv s"
  then have "vote_inv (fire e i s)"
    by (rule vote_inv_cong) (auto simp: fire_frame)
  then show ?thesis using TimerFire by (simp add: step_def)
qed

lemma run_vote_inv: "vote_inv s \<Longrightarrow> vote_inv (run evs s)"
proof (induction evs arbitrary: s)
  case Nil
  then show ?case by simp
next
  case (Cons a evs)
  obtain e ev where a: "a = (e, ev)" by (cases a)
  from Cons.prems have "vote_inv (step e ev s)" by (rule step_vote_inv)
  then show ?case using Cons.IH a by simp
qed

lemma init_vote_inv: "vote_inv (init ls)"
  by (simp add: vote_inv_def init_def)

subsection \<open>Handlers stay on the first connection\<close>

lemma handler_inv_cong: "handler_inv s \<Longrightarrow> conns s' = conns s \<Longrightarrow> handler_inv s'"
  by (simp add: handler_inv_def)

lemma close_keeps_onmessage:
  "has_onmessage (xs[k := (xs ! k)\<lparr>closed := True\<rparr>] ! i) = has_onmessage (xs ! i)"
  by (cases "k < length xs") (simp_all add: nth_list_update list_update_beyond)

lemma close_keeps_onerror:
  "has_onerror (xs[k := (xs ! k)\<lparr>closed := True\<rparr>] ! i) = has_onerror (xs ! i)"
  by (cases "k < length xs") (simp_all add: nth_list_update list_update_beyond)

lemma reconnect_handler_inv: "handler_inv s \<Longrightarrow> handler_inv (reconnect e s)"
  by (auto simp: handler_inv_def reconnect_def log_def Let_def nth_append close_keeps_onmessage close_keeps_onerror
      split: option.splits)

lemma onMounted_handler_inv: "conns s = [] \<Longrightarrow> handler_inv (onMounted e r s)"
  by (auto simp: handler_inv_def onMounted_def log_def Let_def case_prod_beta fetchData_frame
      split: sum.splits)

lemma step_handler_inv: "conn_inv s \<Longrightarrow> handler_inv s \<Longrightarrow> handler_inv (step e ev s)"
proof (cases ev)
  case (Mounted r)
  assume c: "conn_inv s" and h: "handler_inv s"
  show ?thesis
  proof (cases "mounted s")
    case True
    with Mounted h show ?thesis by (simp add: step_def)
  next
    case False
    with c have "conns (s\<lparr>mounted := True\<rparr>) = []" by (simp add: conn_inv_def)
    then have "handler_inv (onMounted e r (s\<lparr>mounted := True\<rparr>))" by (rule onMounted_handler_inv)
    with Mounted False show ?thesis by (simp add: step_def)
  qed
next
  case (Click i)
  assume h: "handler_inv s"
  then have "handler_inv (click i s)" by (rule handler_inv_cong) (simp add: click_def)
  then show ?thesis using Click by (simp add: step_def)
next
  case (SubmitVote p r)
  assume h: "handler_inv s"
  then have "handler_inv (submitVote e p r s)" by (rule handler_inv_cong) (simp add: submitVote_frame)
  then show ?thesis using SubmitVote by (simp add: step_def)
next
  case (SseMessage c p)
  assume h: "handler_inv s"
  then have "handler_inv (onmessage e p s)" by (rule handler_inv_cong) (simp add: onmessage_frame)
  then show ?thesis using SseMessage h by (simp add: step_def)
next
  case (SseError c)
  assume h: "handler_inv s"
  then have "handler_inv (onerror s)" by (rule handler_inv_cong) (simp add: onerror_def log_def)
  then show ?thesis using SseError h by (simp add: step_def)
next
  case (Tick d)
  assume h: "handler_inv s"
  then have "handler_inv (s\<lparr>now := now s + d\<rparr>)" by (rule handler_inv_cong) simp
  then show ?thesis using Tick by (simp add: step_def)
next
  case (TimerFire i)
  assume h: "handler_inv s"
  let ?s1 = "s\<lparr>timers := remove_nth i (timers s)\<rparr>"
  from h have h1: "handler_inv ?s1" by (rule handler_inv_cong) simp
  then have a: "handler_inv (initChart e ?s1)" by (rule handler_inv_cong) (simp add: initChart_frame)
  from h1 have b: "handler_inv (reconnect e ?s1)" by (rule reconnect_handler_inv)
  show ?thesis using TimerFire h a b
    by (simp add: step_def fire_def Let_def split: timer_action.splits)
qed

lemma run_handler_inv: "conn_inv s \<Longrightarrow> handler_inv s \<Longrightarrow> handler_inv (run evs s)"
proof (induction evs arbitrary: s)
  case Nil
  then show ?case by simp
next
  case (Cons a evs)
  obtain e ev where a: "a = (e, ev)" by (cases a)
  from Cons.prems have "conn_inv (step e ev s)" "handler_inv (step e ev s)"
    by (simp_all add: step_conn_inv step_handler_inv)
  then show ?case using Cons.IH a by simp
qed

lemma init_handler_inv: "handler_inv (init ls)"
  by (simp add: handler_inv_def init_def)

lemma handler_inv_ignored:
  "handler_inv s \<Longrightarrow> 0 < c \<Longrightarrow> step e (SseMessage c p) s = s \<and> step e (SseError c) s = s"
  by (auto simp: handler_inv_def step_def)

subsection \<open>A component that never connected stays unconnected\<close>

lemma step_never_connected:
  "mounted s \<and> conns s = [] \<and> timers s = [] \<Longrightarrow>
   mounted (step e ev s) \<and> conns (step e ev s) = [] \<and> timers (step e ev s) = []"
  by (cases ev) (simp_all add: step_def click_def submitVote_frame fire_def)

lemma run_never_connected:
  "mounted s \<and> conns s = [] \<and> timers s = [] \<Longrightarrow> conns (run evs s) = []"
proof (induction evs arbitrary: s)
  case Nil
  then show ?case by simp
next
  case (Cons a evs)
  obtain e ev where a: "a = (e, ev)" by (cases a)
  from Cons.prems have "mounted (step e ev s) \<and> conns (step e ev s) = [] \<and> timers (step e ev s) = []"
    by (rule step_never_connected)
  then show ?case using Cons.IH a by simp
qed

lemma fetchData_NetFail:
  "fetchData NetFail s =
     (Inl NetworkError,
      s\<lparr>options := [], console := console s @ [Err_fetch_failed], requests := requests s @ [GetPoll]\<rparr>)"
  by (simp add: fetchData_def fetch_catch_def log_def)

lemma onMounted_NetFail:
  "onMounted e NetFail s =
     s\<lparr>options := [], console := console s @ [Err_fetch_failed, Err_init_failed],
       requests := requests s @ [GetPoll]\<rparr>"
  by (simp add: onMounted_def fetchData_NetFail log_def)

lemma fetchData_ok:
  "map_of kvs ''Options'' = Some (JArr xs) \<Longrightarrow> JNull \<notin> set xs \<Longrightarrow>
   fetchData (NetOk (JObj kvs)) s =
     (Inr (), s\<lparr>options := map canonical xs, console := console s @ [Log_fetch_ok (length xs)],
                requests := requests s @ [GetPoll]\<rparr>)"
  by (simp add: fetchData_def convert_all_nonnull log_def)

lemma fetchData_no_array:
  "\<forall>xs. map_of kvs ''Options'' \<noteq> Some (JArr xs) \<Longrightarrow>
   fetchData (NetOk (JObj kvs)) s =
     (Inr (), s\<lparr>options := [], console := console s @ [Warn_fetch_format],
                requests := requests s @ [GetPoll]\<rparr>)"
proof (cases "map_of kvs ''Options''")
  case None
  then show ?thesis by (simp add: fetchData_def fetch_else_def log_def)
next
  case (Some v)
  assume "\<forall>xs. map_of kvs ''Options'' \<noteq> Some (JArr xs)"
  with Some show ?thesis by (cases v) (simp_all add: fetchData_def fetch_else_def log_def)
qed

lemma onmessage_ok:
  "xs \<noteq> [] \<Longrightarrow> JNull \<notin> set xs \<Longrightarrow>
   onmessage e (Parsed (JArr xs)) s =
     updateChart e ((log Log_sse_message s)\<lparr>options := map canonical xs\<rparr>)"
  by (simp add: onmessage_def convert_all_nonnull)

subsection \<open>The concrete traces, evaluated\<close>

lemma run_append: "run (xs @ ys) s = run ys (run xs s)"
  by (induction xs arbitrary: s) auto

lemma scenario_A_fetch:
  "fetchData (NetOk scenario_A) s =
     (Inr (), s\<lparr>options := [poll_opt 1 ''Go'' 3, poll_opt 2 ''Rust'' 5],
                console := console s @ [Log_fetch_ok 2], requests := requests s @ [GetPoll]\<rparr>)"
  by (simp add: scenario_A_def fetchData_def server_record_def poll_opt_def convert_def log_def)

lemma scenario_B_fetch:
  "fetchData (NetOk scenario_B) s =
     (Inr (), s\<lparr>options := [], console := console s @ [Warn_fetch_format],
                requests := requests s @ [GetPoll]\<rparr>)"
  by (simp add: scenario_B_def fetchData_def fetch_else_def log_def)

lemma mounted_A_eq:
  "mounted_A =
     \<lparr>options = [poll_opt 1 ''Go'' 3, poll_opt 2 ''Rust'' 5], selected = None, hasVoted = False,
      localStorage = None, chart = None, charts = [], eventSource = Some 0,
      conns = [\<lparr>closed = False, has_onmessage = True, has_onerror = True\<rparr>],
      timers = [\<lparr>due = 100, action = InitChart\<rparr>], now = 0, mounted = True,
      console = [Log_fetch_ok 2, Log_mounted_ok 2], requests = [GetPoll]\<rparr>"
  by (simp add: mounted_A_def trace_mounted_def step_def onMounted_def scenario_A_fetch
      init_def env_ok_def log_def)

lemma charted_A_eq:
  "charted_A =
     \<lparr>options = [poll_opt 1 ''Go'' 3, poll_opt 2 ''Rust'' 5], selected = None, hasVoted = False,
      localStorage = None, chart = Some 0,
      charts = [\<lparr>labels = [Some (JStr ''Go''), Some (JStr ''Rust'')],
                 data = [Some (JNum 3), Some (JNum 5)], destroyed = False, update_calls = 0\<rparr>],
      eventSource = Some 0,
      conns = [\<lparr>closed = False, has_onmessage = True, has_onerror = True\<rparr>],
      timers = [], now = 100, mounted = True,
      console = [Log_fetch_ok 2, Log_mounted_ok 2, Log_init_chart], requests = [GetPoll]\<rparr>"
proof -
  have "charted_A = run [(env_ok, Tick 100), (env_ok, TimerFire 0)] mounted_A"
    by (simp add: charted_A_def trace_charted_def mounted_A_def run_append)
  then show ?thesis
    by (simp add: mounted_A_eq step_def fire_def remove_nth_def initChart_def env_ok_def log_def
        poll_opt_def)
qed

lemma reconnected_A_eq:
  "reconnected_A =
     \<lparr>options = [poll_opt 1 ''Go'' 3, poll_opt 2 ''Rust'' 5], selected = None, hasVoted = False,
      localStorage = None, chart = Some 0,
      charts = [\<lparr>labels = [Some (JStr ''Go''), Some (JStr ''Rust'')],
                 data = [Some (JNum 3), Some (JNum 5)], destroyed = False, update_calls = 0\<rparr>],
      eventSource = Some 1,
      conns = [\<lparr>closed = True, has_onmessage = True, has_onerror = True\<rparr>,
               \<lparr>closed = False, has_onmessage = False, has_onerror = False\<rparr>],
      timers = [], now = 5100, mounted = True,
      console = [Log_fetch_ok 2, Log_mounted_ok 2, Log_init_chart, Err_sse_error,
                 Log_sse_reconnecting, Log_sse_reconnected],
      requests = [GetPoll]\<rparr>"
proof -
  have "reconnected_A =
          run [(env_ok, SseError 0), (env_ok, Tick 5000), (env_ok, TimerFire 0)] charted_A"
    by (simp add: reconnected_A_def trace_reconnected_def charted_A_def run_append)
  then show ?thesis
    by (simp add: charted_A_eq step_def onerror_def fire_def remove_nth_def reconnect_def
        env_ok_def log_def)
qed

lemma voted_B_eq:
  "voted_B =
     \<lparr>options = [], selected = Some (JNum 2), hasVoted = True,
      localStorage = Some ''true'', chart = Some 0,
      charts = [\<lparr>labels = [Some (JStr ''Go''), Some (JStr ''Rust'')],
                 data = [Some (JNum 3), Some (JNum 5)], destroyed = False, update_calls = 0\<rparr>],
      eventSource = Some 0,
      conns = [\<lparr>closed = False, has_onmessage = True, has_onerror = True\<rparr>],
      timers = [], now = 100, mounted = True,
      console = [Log_fetch_ok 2, Log_mounted_ok 2, Log_init_chart, Warn_fetch_format,
                 Warn_update_no_options],
      requests = [GetPoll, VotePost (Some (JNum 2)), GetPoll]\<rparr>"
proof -
  have "voted_B = run [(env_ok, Click 1), (env_ok, SubmitVote True (NetOk scenario_B))] charted_A"
    by (simp add: voted_B_def trace_voted_def charted_A_def run_append)
  then show ?thesis
    by (simp add: charted_A_eq step_def click_def submitVote_def scenario_B_fetch updateChart_def
        env_ok_def log_def poll_opt_def)
qed

lemma scenario_D_message:
  "onmessage env_ok (Parsed scenario_D) charted_A =
     charted_A\<lparr>options := [poll_opt 1 ''Go'' 4, poll_opt 2 ''Rust'' 5],
       charts := [\<lparr>labels = [Some (JStr ''Go''), Some (JStr ''Rust'')],
                 data = [Some (JNum 4), Some (JNum 5)], destroyed = False, update_calls = 1\<rparr>],
       console := console charted_A @ [Log_sse_message]\<rparr>"
  by (simp add: charted_A_eq onmessage_def scenario_D_def server_record_def convert_def
      updateChart_def env_ok_def log_def poll_opt_def)

lemma selected_zero_eq:
  "selected_zero =
     \<lparr>options = [poll_opt 0 ''C'' 1, poll_opt 1 ''Go'' 3], selected = Some (JNum 0),
      hasVoted = False, localStorage = None, chart = None, charts = [], eventSource = Some 0,
      conns = [\<lparr>closed = False, has_onmessage = True, has_onerror = True\<rparr>],
      timers = [\<lparr>due = 100, action = InitChart\<rparr>], now = 0, mounted = True,
      console = [Log_fetch_ok 2, Log_mounted_ok 2], requests = [GetPoll]\<rparr>"
  by (simp add: selected_zero_def trace_zero_def step_def onMounted_def scenario_Z_def
      fetchData_def server_record_def poll_opt_def convert_def click_def
      init_def env_ok_def log_def)


section \<open>The claims\<close>

subsection \<open>C1: a failed fetch and the stored snapshot\<close>

text \<open>
  Claim C1, as amended. The claim reads: if the fetch fails with a network error, the
  stored options after the call equal the stored options before it. The \<^verbatim>\<open>catch\<close>
  block of \<^verbatim>\<open>fetchData\<close> assigns \<^verbatim>\<open>options.value = []\<close> before it rethrows. What
  holds instead: for every prior state, a fetch that fails with a network error leaves
  the stored options empty, logs the failure, reports it to the caller, and changes
  nothing else of the component (selection, voted flag, chart, connections, timers).
\<close>

theorem C1_fetch_failure_empties_snapshot:
  "fetchData NetFail s =
     (Inl NetworkError,
      s\<lparr>options := [], console := console s @ [Err_fetch_failed],
        requests := requests s @ [GetPoll]\<rparr>)"
  by (rule fetchData_NetFail)

text \<open>
  Instances of C1 as amended: after a vote, a failed fetch keeps the voted flag and the
  selection, and empties the options of a component that had two.
\<close>

theorem C1_fetch_failure_empties_snapshot_witness:
  "hasVoted (snd (fetchData NetFail voted_B))
   \<and> selected (snd (fetchData NetFail voted_B)) = Some (JNum 2)
   \<and> options (snd (fetchData NetFail charted_A)) = []
   \<and> console (snd (fetchData NetFail charted_A)) = console charted_A @ [Err_fetch_failed]"
  using C1_fetch_failure_empties_snapshot [of voted_B]
    C1_fetch_failure_empties_snapshot [of charted_A]
  by (simp add: voted_B_eq)

text \<open>
  C1 as written fails: the component holds the two options of scenario A, the fetch
  fails with a network error, and the stored options are then empty.
\<close>

theorem C1_prior_snapshot_lost:
  "options mounted_A = [poll_opt 1 ''Go'' 3, poll_opt 2 ''Rust'' 5]
   \<and> fst (fetchData NetFail mounted_A) = Inl NetworkError
   \<and> options (snd (fetchData NetFail mounted_A)) = []
   \<and> options (snd (fetchData NetFail mounted_A)) \<noteq> options mounted_A"
  by (simp add: fetchData_NetFail mounted_A_eq)

subsection \<open>C2: a failed fetch during activation\<close>

text \<open>
  Claim C2, as amended. The claim reads: when the initial fetch fails, the mounted hook
  catches and logs the failure and still opens the push connection. The hook has one
  \<^verbatim>\<open>try\<close> block around the fetch, the chart timer and \<^verbatim>\<open>new EventSource\<close>, so the
  rethrown failure skips all of them. What holds instead: the failure is reported to
  the hook, which catches and logs it; the hook then ends, with the options empty, no
  chart creation scheduled and no connection opened; and whatever happens afterwards,
  the component never has a connection.
\<close>

theorem C2_failed_fetch_aborts_activation:
  "onMounted e NetFail s =
     s\<lparr>options := [], console := console s @ [Err_fetch_failed, Err_init_failed],
       requests := requests s @ [GetPoll]\<rparr>
   \<and> conns (run ((e, Mounted NetFail) # evs) (init ls)) = []"
proof -
  have "mounted (step e (Mounted NetFail) (init ls))
        \<and> conns (step e (Mounted NetFail) (init ls)) = []
        \<and> timers (step e (Mounted NetFail) (init ls)) = []"
    by (simp add: step_def onMounted_NetFail init_def)
  then have "conns (run evs (step e (Mounted NetFail) (init ls))) = []"
    by (rule run_never_connected)
  then show ?thesis by (simp add: onMounted_NetFail)
qed

text \<open>
  Instance of C2 as amended: the failed activation logs the two errors, and a later
  error event, the passing of five seconds and a timer event open no connection.
\<close>

theorem C2_failed_fetch_aborts_activation_witness:
  "console (onMounted env_ok NetFail (init None)) = [Err_fetch_failed, Err_init_failed]
   \<and> timers (onMounted env_ok NetFail (init None)) = []
   \<and> conns (run [(env_ok, Mounted NetFail), (env_ok, SseError 0), (env_ok, Tick 5000),
                  (env_ok, TimerFire 0)] (init None)) = []"
  using C2_failed_fetch_aborts_activation [where e = env_ok and s = "init None" and ls = None
      and evs = "[(env_ok, SseError 0), (env_ok, Tick 5000), (env_ok, TimerFire 0)]"]
  by (simp add: init_def)

text \<open>
  C2 as written fails: after an activation whose fetch failed with a network error, the
  failure is logged by \<^verbatim>\<open>fetchData\<close> and by the hook, and no connection exists.
\<close>

theorem C2_no_connection_after_failed_fetch:
  "console (run [(env_ok, Mounted NetFail)] (init None)) = [Err_fetch_failed, Err_init_failed]
   \<and> conns (run [(env_ok, Mounted NetFail)] (init None)) = []
   \<and> eventSource (run [(env_ok, Mounted NetFail)] (init None)) = None"
  by (simp add: step_def onMounted_NetFail init_def)

subsection \<open>C3: the subscriber after a reconnection\<close>

text \<open>
  In every reachable state, a message or an error event on any connection but the
  first reaches no handler: the state does not change.
\<close>

lemma later_connections_ignored:
  "0 < c \<Longrightarrow> step e (SseMessage c p) (run evs (init ls)) = run evs (init ls)
             \<and> step e (SseError c) (run evs (init ls)) = run evs (init ls)"
proof -
  assume c: "0 < c"
  have "handler_inv (run evs (init ls))"
    by (rule run_handler_inv) (simp_all add: init_conn_inv init_handler_inv)
  then show ?thesis using c by (rule handler_inv_ignored)
qed

text \<open>
  Claim C3 reads: after any number of error-triggered reconnections, the current
  connection still processes each well-formed non-empty message, and a further
  transport error still triggers a reconnection. The reconnection callback assigns the
  new \<^verbatim>\<open>EventSource\<close> to the variable and logs that the connection is re-established,
  but assigns neither \<^verbatim>\<open>onmessage\<close> nor \<^verbatim>\<open>onerror\<close> to the new object. Evaluated on
  the trace of one error and its reconnection: the current connection is connection 1,
  it is the only open one, the message of scenario D delivered on it changes nothing,
  an error on it changes nothing (no timer is scheduled); before the reconnection the
  same message replaced the options.
\<close>

theorem C3_reconnected_connection_has_no_handlers:
  "eventSource reconnected_A = Some 1
   \<and> live_conns reconnected_A = [\<lparr>closed = False, has_onmessage = False, has_onerror = False\<rparr>]
   \<and> step env_ok (SseMessage 1 (Parsed scenario_D)) reconnected_A = reconnected_A
   \<and> step env_ok (SseError 1) reconnected_A = reconnected_A
   \<and> options (step env_ok (SseMessage 0 (Parsed scenario_D)) charted_A) =
       [poll_opt 1 ''Go'' 4, poll_opt 2 ''Rust'' 5]"
proof -
  have "options (step env_ok (SseMessage 0 (Parsed scenario_D)) charted_A) =
          options (onmessage env_ok (Parsed scenario_D) charted_A)"
    by (simp add: step_def charted_A_eq)
  then show ?thesis
    by (simp add: scenario_D_message) (simp add: reconnected_A_eq step_def live_conns_def)
qed

subsection \<open>C4: scheduling a reconnection, one open connection at a time\<close>

text \<open>
  What holds of the reconnection cycle. In every state the component reaches from its
  initial state, whatever the events and the answers of the surroundings, at most one
  connection is not closed. An error event that reaches the \<^verbatim>\<open>onerror\<close> handler (the
  connection exists, is not closed by the script, and carries the handler) opens
  nothing: it logs and schedules one reconnection timer due 5000 milliseconds after the
  current time. A timer does not fire before it is due. When a due reconnection timer
  fires, the connection the variable holds is closed and, the constructor succeeding,
  one new connection is appended, open and without handlers, and the variable holds it.
\<close>

lemma fire_reconnect_opens:
  assumes "i < length (timers s)" and "due (timers s ! i) \<le> now s"
    and "action (timers s ! i) = Reconnect" and "es_ctor_ok e"
    and "eventSource s = Some k"
  shows "conns (fire e i s) =
           (conns s)[k := (conns s ! k)\<lparr>closed := True\<rparr>]
             @ [\<lparr>closed = False, has_onmessage = False, has_onerror = False\<rparr>]
         \<and> eventSource (fire e i s) = Some (length (conns s))
         \<and> timers (fire e i s) = remove_nth i (timers s)"
  using assms by (simp add: fire_def reconnect_def log_def Let_def)

lemma single_live_connection:
  "length (live_conns (run evs (init ls))) \<le> 1
   \<and> (c < length (conns s) \<and> \<not> closed (conns s ! c) \<and> has_onerror (conns s ! c) \<longrightarrow>
        step e (SseError c) s =
          s\<lparr>console := console s @ [Err_sse_error],
            timers := timers s @ [\<lparr>due = now s + 5000, action = Reconnect\<rparr>]\<rparr>)
   \<and> (i < length (timers s) \<and> now s < due (timers s ! i) \<longrightarrow> step e (TimerFire i) s = s)
   \<and> (i < length (timers s) \<and> due (timers s ! i) \<le> now s
        \<and> action (timers s ! i) = Reconnect \<and> es_ctor_ok e
        \<and> eventSource s = Some k \<and> k < length (conns s) \<longrightarrow>
          conns (step e (TimerFire i) s) =
            (conns s)[k := (conns s ! k)\<lparr>closed := True\<rparr>]
              @ [\<lparr>closed = False, has_onmessage = False, has_onerror = False\<rparr>]
          \<and> closed (conns (step e (TimerFire i) s) ! k)
          \<and> \<not> closed (conns (step e (TimerFire i) s) ! length (conns s))
          \<and> eventSource (step e (TimerFire i) s) = Some (length (conns s)))"
proof -
  have "conn_inv (run evs (init ls))" by (rule run_conn_inv) (rule init_conn_inv)
  then have a: "length (live_conns (run evs (init ls))) \<le> Suc 0" by (rule conn_inv_live)
  have b: "i < length (timers s) \<and> due (timers s ! i) \<le> now s
        \<and> action (timers s ! i) = Reconnect \<and> es_ctor_ok e
        \<and> eventSource s = Some k \<and> k < length (conns s) \<longrightarrow>
          conns (step e (TimerFire i) s) =
            (conns s)[k := (conns s ! k)\<lparr>closed := True\<rparr>]
              @ [\<lparr>closed = False, has_onmessage = False, has_onerror = False\<rparr>]
          \<and> closed (conns (step e (TimerFire i) s) ! k)
          \<and> \<not> closed (conns (step e (TimerFire i) s) ! length (conns s))
          \<and> eventSource (step e (TimerFire i) s) = Some (length (conns s))"
  proof
    assume h: "i < length (timers s) \<and> due (timers s ! i) \<le> now s
        \<and> action (timers s ! i) = Reconnect \<and> es_ctor_ok e
        \<and> eventSource s = Some k \<and> k < length (conns s)"
    then have f: "conns (fire e i s) =
           (conns s)[k := (conns s ! k)\<lparr>closed := True\<rparr>]
             @ [\<lparr>closed = False, has_onmessage = False, has_onerror = False\<rparr>]
         \<and> eventSource (fire e i s) = Some (length (conns s))
         \<and> timers (fire e i s) = remove_nth i (timers s)"
      by (intro fire_reconnect_opens) simp_all
    from h have k: "k < length (conns s)" by simp
    from f k show "conns (step e (TimerFire i) s) =
            (conns s)[k := (conns s ! k)\<lparr>closed := True\<rparr>]
              @ [\<lparr>closed = False, has_onmessage = False, has_onerror = False\<rparr>]
          \<and> closed (conns (step e (TimerFire i) s) ! k)
          \<and> \<not> closed (conns (step e (TimerFire i) s) ! length (conns s))
          \<and> eventSource (step e (TimerFire i) s) = Some (length (conns s))"
      by (simp add: step_def nth_append)
  qed
  have c: "c < length (conns s) \<and> \<not> closed (conns s ! c) \<and> has_onerror (conns s ! c) \<longrightarrow>
        step e (SseError c) s =
          s\<lparr>console := console s @ [Err_sse_error],
            timers := timers s @ [\<lparr>due = now s + 5000, action = Reconnect\<rparr>]\<rparr>"
    by (simp add: step_def onerror_def log_def)
  have d: "i < length (timers s) \<and> now s < due (timers s ! i) \<longrightarrow> step e (TimerFire i) s = s"
    by (simp add: step_def fire_def)
  from a have a': "length (live_conns (run evs (init ls))) \<le> 1" by simp
  from a' b c d show ?thesis by blast
qed

text \<open>
  Instance: after the error on the first connection at time 100 the timer is due at
  5100 and cannot fire at once; once due it closes connection 0 and opens connection 1;
  after the reconnection at most one connection is open.
\<close>

lemma single_live_connection_instance:
  "length (live_conns reconnected_A) \<le> 1
   \<and> timers (step env_ok (SseError 0) charted_A) = [\<lparr>due = 5100, action = Reconnect\<rparr>]
   \<and> conns (step env_ok (SseError 0) charted_A) = conns charted_A
   \<and> step env_ok (TimerFire 0) (step env_ok (SseError 0) charted_A) =
       step env_ok (SseError 0) charted_A
   \<and> conns (step env_ok (TimerFire 0)
              (step env_ok (Tick 5000) (step env_ok (SseError 0) charted_A))) =
       [\<lparr>closed = True, has_onmessage = True, has_onerror = True\<rparr>,
        \<lparr>closed = False, has_onmessage = False, has_onerror = False\<rparr>]"
proof -
  let ?s1 = "step env_ok (SseError 0) charted_A"
  let ?s2 = "step env_ok (Tick 5000) ?s1"
  note a = single_live_connection [where evs = trace_reconnected and ls = None and c = 0
      and s = charted_A and e = env_ok and i = 0 and k = 0]
  note b = single_live_connection [where evs = "[]" and ls = None and c = 0
      and s = ?s1 and e = env_ok and i = 0 and k = 0]
  note c = single_live_connection [where evs = "[]" and ls = None and c = 0
      and s = ?s2 and e = env_ok and i = 0 and k = 0]
  have s1: "?s1 = charted_A\<lparr>console := console charted_A @ [Err_sse_error],
              timers := [\<lparr>due = 5100, action = Reconnect\<rparr>]\<rparr>"
    using a by (simp add: charted_A_eq)
  have s2: "?s2 = charted_A\<lparr>console := console charted_A @ [Err_sse_error],
              timers := [\<lparr>due = 5100, action = Reconnect\<rparr>], now := 5100\<rparr>"
    unfolding s1 by (simp add: step_def charted_A_eq)
  have 1: "length (live_conns reconnected_A) \<le> 1" using a by (simp add: reconnected_A_def)
  have 2: "step env_ok (TimerFire 0) ?s1 = ?s1"
    using b unfolding s1 by (simp add: charted_A_eq)
  have 3: "conns (step env_ok (TimerFire 0) ?s2) =
       [\<lparr>closed = True, has_onmessage = True, has_onerror = True\<rparr>,
        \<lparr>closed = False, has_onmessage = False, has_onerror = False\<rparr>]"
    using c unfolding s2 by (simp add: charted_A_eq env_ok_def)
  have 4: "timers ?s1 = [\<lparr>due = 5100, action = Reconnect\<rparr>] \<and> conns ?s1 = conns charted_A"
    unfolding s1 by simp
  from 1 2 3 4 show ?thesis by blast
qed

text \<open>
  Claim C4 reads: on a push-connection transport error a new connection attempt is
  scheduled after a fixed 5-second delay, and the old connection is closed before (or
  when) the new one is opened, so that two open connections never coexist. The
  \<^verbatim>\<open>onerror\<close> handler that schedules the attempt is assigned to the first
  \<^verbatim>\<open>EventSource\<close> only; the reconnection callback assigns no handler to the object it
  creates. Evaluated on the trace of one error and its reconnection: the error on
  connection 0 at time 100 schedules the attempt for time 5100 and opens nothing, and
  the due timer closes connection 0 and opens connection 1, the only open one; a
  transport error on connection 1, the open connection the variable now holds,
  schedules nothing, and after five more seconds and a timer event the connections
  are as before: no new attempt is ever made.
\<close>

theorem C4_error_after_reconnection_schedules_nothing:
  "timers (step env_ok (SseError 0) charted_A) = [\<lparr>due = 5100, action = Reconnect\<rparr>]
   \<and> conns (step env_ok (SseError 0) charted_A) = conns charted_A
   \<and> eventSource reconnected_A = Some 1
   \<and> conns reconnected_A =
       [\<lparr>closed = True, has_onmessage = True, has_onerror = True\<rparr>,
        \<lparr>closed = False, has_onmessage = False, has_onerror = False\<rparr>]
   \<and> timers (step env_ok (SseError 1) reconnected_A) = []
   \<and> console (step env_ok (SseError 1) reconnected_A) = console reconnected_A
   \<and> conns (run [(env_ok, SseError 1), (env_ok, Tick 5000), (env_ok, TimerFire 0)]
               reconnected_A) = conns reconnected_A"
proof -
  have 1: "timers (step env_ok (SseError 0) charted_A) = [\<lparr>due = 5100, action = Reconnect\<rparr>]
      \<and> conns (step env_ok (SseError 0) charted_A) = conns charted_A"
    by (simp add: charted_A_eq step_def onerror_def log_def)
  have 2: "step env_ok (SseError 1) reconnected_A = reconnected_A"
    by (simp add: reconnected_A_eq step_def)
  have 3: "run [(env_ok, SseError 1), (env_ok, Tick 5000), (env_ok, TimerFire 0)] reconnected_A =
      reconnected_A\<lparr>now := 10100\<rparr>"
    by (simp add: 2) (simp add: reconnected_A_eq step_def fire_def)
  have 4: "timers (step env_ok (SseError 1) reconnected_A) = []
      \<and> console (step env_ok (SseError 1) reconnected_A) = console reconnected_A"
    unfolding 2 by (simp add: reconnected_A_eq)
  have 5: "conns (run [(env_ok, SseError 1), (env_ok, Tick 5000), (env_ok, TimerFire 0)]
               reconnected_A) = conns reconnected_A"
    unfolding 3 by simp
  have 6: "eventSource reconnected_A = Some 1
      \<and> conns reconnected_A =
         [\<lparr>closed = True, has_onmessage = True, has_onerror = True\<rparr>,
          \<lparr>closed = False, has_onmessage = False, has_onerror = False\<rparr>]"
    by (simp add: reconnected_A_eq)
  from 1 4 5 6 show ?thesis by blast
qed

subsection \<open>C5: who writes the voted flag\<close>

lemma submitVote_guard: "\<not> truthy (selected s) \<or> hasVoted s \<Longrightarrow> submitVote e p r s = s"
  by (auto simp: submitVote_def)

lemma submitVote_post_failed:
  "truthy (selected s) \<Longrightarrow> \<not> hasVoted s \<Longrightarrow>
   submitVote e False r s =
     s\<lparr>requests := requests s @ [VotePost (selected s)],
       console := console s @ [Err_submit_failed]\<rparr>"
  by (simp add: submitVote_def log_def)

text \<open>
  Claim C5. After \<^verbatim>\<open>submitVote\<close> the flag \<open>hasVoted\<close> is true exactly when it was
  true before or an option was selected (the selection is truthy, as the guard
  \<^verbatim>\<open>!selected.value\<close> tests it) and the vote request succeeded; the stored flag becomes
  \<^verbatim>\<open>'true'\<close> exactly in the second case. With no selection or with the flag already
  set, \<^verbatim>\<open>submitVote\<close> changes nothing at all; when the vote request fails, it changes
  nothing but the request list and the console, so the flag stays false. Once true, the
  flag is true after every sequence of events. Every event other than a vote submission
  leaves the flag and the stored flag as they were. In every reachable state the flag
  is true exactly when the stored flag is \<^verbatim>\<open>'true'\<close>.
\<close>

theorem C5_vote_gating:
  "(hasVoted (submitVote e p r s) \<longleftrightarrow> hasVoted s \<or> truthy (selected s) \<and> p)
   \<and> localStorage (submitVote e p r s) =
       (if \<not> hasVoted s \<and> truthy (selected s) \<and> p then Some ''true'' else localStorage s)
   \<and> (\<not> truthy (selected s) \<or> hasVoted s \<longrightarrow> submitVote e p r s = s)
   \<and> (truthy (selected s) \<and> \<not> hasVoted s \<longrightarrow>
        submitVote e False r s =
          s\<lparr>requests := requests s @ [VotePost (selected s)],
            console := console s @ [Err_submit_failed]\<rparr>)
   \<and> (hasVoted s \<longrightarrow> hasVoted (run evs s))
   \<and> ((\<forall>q r'. ev \<noteq> SubmitVote q r') \<longrightarrow>
        hasVoted (step e ev s) = hasVoted s \<and> localStorage (step e ev s) = localStorage s)
   \<and> (hasVoted (run evs (init ls)) \<longleftrightarrow> localStorage (run evs (init ls)) = Some ''true'')"
proof -
  have "hasVoted (init ls) = (localStorage (init ls) = Some ''true'')"
    by (simp add: init_def)
  then have "hasVoted (run evs (init ls)) = (localStorage (run evs (init ls)) = Some ''true'')"
    by (rule run_persist)
  then show ?thesis
    using submitVote_guard[of s e p r] step_only_writer[of ev e s]
    by (simp add: submitVote_hasVoted submitVote_localStorage submitVote_post_failed
        run_hasVoted_mono)
qed

text \<open>
  Instances of C5 (scenario C): after the successful vote the flag is set and stored; a
  second submission is a no-op; a submission without a selection is a no-op; a failed
  vote request leaves the flag false; a push message and a click leave a set flag set.
\<close>

theorem C5_vote_gating_witness:
  "hasVoted voted_B \<and> localStorage voted_B = Some ''true''
   \<and> submitVote env_ok True (NetOk scenario_A) voted_B = voted_B
   \<and> submitVote env_ok True (NetOk scenario_A) charted_A = charted_A
   \<and> \<not> hasVoted (submitVote env_ok False NetFail (click 1 charted_A))
   \<and> hasVoted (run [(env_ok, SseMessage 0 (Parsed scenario_D)), (env_ok, Click 0)] voted_B)
   \<and> hasVoted (step env_ok (Click 0) charted_A) = hasVoted charted_A"
  using C5_vote_gating [where s = voted_B and e = env_ok and p = True and r = "NetOk scenario_A"
      and evs = trace_voted and ls = None and ev = "Click 0"]
    C5_vote_gating [where s = charted_A and e = env_ok and p = True and r = "NetOk scenario_A"
      and evs = "[]" and ls = None and ev = "Click 0"]
    C5_vote_gating [where s = "click 1 charted_A" and e = env_ok and p = False and r = NetFail
      and evs = "[]" and ls = None and ev = "Click 0"]
    C5_vote_gating [where s = voted_B and e = env_ok and p = True and r = NetFail
      and evs = "[(env_ok, SseMessage 0 (Parsed scenario_D)), (env_ok, Click 0)]" and ls = None
      and ev = "Click 0"]
  by (simp add: voted_B_eq charted_A_eq click_def poll_opt_def)

subsection \<open>C6: what the fetch stores\<close>

lemma fetchData_not_array:
  "\<forall>xs. member_of d ''Options'' \<noteq> Some (JArr xs) \<Longrightarrow>
   fetchData (NetOk d) s =
     (Inr (), s\<lparr>options := [], console := console s @ [Warn_fetch_format],
                requests := requests s @ [GetPoll]\<rparr>)"
proof (cases d)
  case (JObj kvs)
  assume "\<forall>xs. member_of d ''Options'' \<noteq> Some (JArr xs)"
  with JObj have "\<forall>xs. map_of kvs ''Options'' \<noteq> Some (JArr xs)" by simp
  then show ?thesis using JObj by (simp add: fetchData_no_array)
qed (auto simp add: fetchData_def fetch_else_def log_def Let_def)

lemma initChart_no_options:
  "options s = [] \<Longrightarrow> initChart e s = s\<lparr>console := console s @ [Warn_init_no_options]\<rparr>"
  by (simp add: initChart_def log_def)

lemma initChart_no_canvas:
  "options s \<noteq> [] \<Longrightarrow> \<not> canvas_found e \<Longrightarrow>
   initChart e s = s\<lparr>console := console s @ [Err_init_no_canvas]\<rparr>"
  by (simp add: initChart_def log_def)

text \<open>
  Claim C6. For a response object whose member \<^verbatim>\<open>Options\<close> is an array of records
  (no element is \<^verbatim>\<open>null\<close>), the fetch succeeds and stores, in the order of the
  server, the option with \<open>id\<close> from \<^verbatim>\<open>ID\<close>, \<open>text\<close> from \<^verbatim>\<open>Text\<close> and \<open>votes\<close>
  from \<^verbatim>\<open>Votes\<close> of each record; a record \<^verbatim>\<open>{ID: i, Text: t, Votes: v}\<close> becomes the
  option \<open>(i, t, v)\<close>. For a response whose \<^verbatim>\<open>Options\<close> is absent or not an array, the
  fetch succeeds, stores the empty list and logs a warning; the mounted hook then
  schedules no chart creation, and \<^verbatim>\<open>initChart\<close> on that state creates no chart.
\<close>

theorem C6_fetch_normalizes:
  "(map_of kvs ''Options'' = Some (JArr xs) \<and> JNull \<notin> set xs \<longrightarrow>
      fetchData (NetOk (JObj kvs)) s =
        (Inr (), s\<lparr>options := map canonical xs,
                   console := console s @ [Log_fetch_ok (length xs)],
                   requests := requests s @ [GetPoll]\<rparr>))
   \<and> canonical (server_record i t v) = poll_opt i t v
   \<and> ((\<forall>ys. member_of d ''Options'' \<noteq> Some (JArr ys)) \<longrightarrow>
        fetchData (NetOk d) s =
          (Inr (), s\<lparr>options := [], console := console s @ [Warn_fetch_format],
                     requests := requests s @ [GetPoll]\<rparr>)
        \<and> level_of Warn_fetch_format = Warning
        \<and> timers (onMounted e (NetOk d) s) = timers s
        \<and> chart (initChart e (snd (fetchData (NetOk d) s))) = chart s
        \<and> charts (initChart e (snd (fetchData (NetOk d) s))) = charts s)"
proof -
  have a: "map_of kvs ''Options'' = Some (JArr xs) \<and> JNull \<notin> set xs \<longrightarrow>
      fetchData (NetOk (JObj kvs)) s =
        (Inr (), s\<lparr>options := map canonical xs,
                   console := console s @ [Log_fetch_ok (length xs)],
                   requests := requests s @ [GetPoll]\<rparr>)"
    by (simp add: fetchData_ok)
  have b: "canonical (server_record i t v) = poll_opt i t v"
    by (simp add: canonical_def server_record_def poll_opt_def)
  have c: "(\<forall>ys. member_of d ''Options'' \<noteq> Some (JArr ys)) \<longrightarrow>
        fetchData (NetOk d) s =
          (Inr (), s\<lparr>options := [], console := console s @ [Warn_fetch_format],
                     requests := requests s @ [GetPoll]\<rparr>)
        \<and> level_of Warn_fetch_format = Warning
        \<and> timers (onMounted e (NetOk d) s) = timers s
        \<and> chart (initChart e (snd (fetchData (NetOk d) s))) = chart s
        \<and> charts (initChart e (snd (fetchData (NetOk d) s))) = charts s"
  proof
    assume h: "\<forall>ys. member_of d ''Options'' \<noteq> Some (JArr ys)"
    then have f: "fetchData (NetOk d) s =
          (Inr (), s\<lparr>options := [], console := console s @ [Warn_fetch_format],
                     requests := requests s @ [GetPoll]\<rparr>)"
      by (rule fetchData_not_array)
    have t: "timers (onMounted e (NetOk d) s) = timers s"
      by (simp add: onMounted_def f log_def Let_def)
    have i: "chart (initChart e (snd (fetchData (NetOk d) s))) = chart s
        \<and> charts (initChart e (snd (fetchData (NetOk d) s))) = charts s"
      by (simp add: f initChart_no_options)
    from f t i show "fetchData (NetOk d) s =
          (Inr (), s\<lparr>options := [], console := console s @ [Warn_fetch_format],
                     requests := requests s @ [GetPoll]\<rparr>)
        \<and> level_of Warn_fetch_format = Warning
        \<and> timers (onMounted e (NetOk d) s) = timers s
        \<and> chart (initChart e (snd (fetchData (NetOk d) s))) = chart s
        \<and> charts (initChart e (snd (fetchData (NetOk d) s))) = charts s"
      by simp
  qed
  from a b c show ?thesis by blast
qed

text \<open>Instances of C6: scenarios A and B.\<close>

theorem C6_fetch_normalizes_witness:
  "options (snd (fetchData (NetOk scenario_A) (init None))) =
     [poll_opt 1 ''Go'' 3, poll_opt 2 ''Rust'' 5]
   \<and> options (snd (fetchData (NetOk scenario_B) mounted_A)) = []
   \<and> console (snd (fetchData (NetOk scenario_B) mounted_A)) =
       console mounted_A @ [Warn_fetch_format]
   \<and> timers (onMounted env_ok (NetOk scenario_B) (init None)) = []
   \<and> charts (initChart env_ok (snd (fetchData (NetOk scenario_B) mounted_A))) = []"
proof -
  note a = C6_fetch_normalizes [where
      kvs = "[(''Options'', JArr [server_record 1 ''Go'' 3, server_record 2 ''Rust'' 5])]"
      and xs = "[server_record 1 ''Go'' 3, server_record 2 ''Rust'' 5]" and s = "init None"
      and d = scenario_B and e = env_ok and i = 1 and t = "''Go''" and v = 3]
  note b = C6_fetch_normalizes [where kvs = "[]" and xs = "[]" and s = mounted_A
      and d = scenario_B and e = env_ok and i = 2 and t = "''Rust''" and v = 5]
  have nb: "\<forall>ys. member_of scenario_B ''Options'' \<noteq> Some (JArr ys)"
    by (simp add: scenario_B_def)
  have 1: "options (snd (fetchData (NetOk scenario_A) (init None))) =
      [poll_opt 1 ''Go'' 3, poll_opt 2 ''Rust'' 5]"
    using a b by (simp add: scenario_A_def server_record_def)
  have 2: "fetchData (NetOk scenario_B) mounted_A =
      (Inr (), mounted_A\<lparr>options := [], console := console mounted_A @ [Warn_fetch_format],
                 requests := requests mounted_A @ [GetPoll]\<rparr>)"
    using b nb by blast
  have 3: "timers (onMounted env_ok (NetOk scenario_B) (init None)) = timers (init None)"
    using a nb by blast
  have 4: "charts (initChart env_ok (snd (fetchData (NetOk scenario_B) mounted_A))) =
      charts mounted_A"
    using b nb by blast
  show ?thesis using 1 2 3 4 by (simp add: mounted_A_eq init_def)
qed

subsection \<open>C7: one live chart at a time\<close>

lemma initChart_destroys_prior:
  "options s \<noteq> [] \<Longrightarrow> canvas_found e \<Longrightarrow> chart s = Some k \<Longrightarrow> k < length (charts s) \<Longrightarrow>
   destroyed (charts (initChart e s) ! k)"
  by (simp add: initChart_def log_def Let_def nth_append)

lemma initChart_creates:
  "options s \<noteq> [] \<Longrightarrow> canvas_found e \<Longrightarrow> chart_ctor_ok e \<Longrightarrow>
   chart (initChart e s) = Some (length (charts s))
   \<and> charts (initChart e s) ! length (charts s) =
       \<lparr>labels = map opt_text (options s), data = map opt_votes (options s),
        destroyed = False, update_calls = 0\<rparr>"
  by (simp add: initChart_def log_def Let_def nth_append split: option.splits)

text \<open>
  Claim C7. In every state the component reaches from its initial state at most one
  chart resource is not destroyed. \<^verbatim>\<open>initChart\<close> with no options only logs a warning,
  and with options but without the canvas element only logs an error: the state is
  otherwise unchanged. When it goes on, the chart the variable held is destroyed; when
  the constructor succeeds the variable holds a new chart with the labels and the vote
  counts of the current options.
\<close>

theorem C7_single_live_chart:
  "length (live_charts (run evs (init ls))) \<le> 1
   \<and> (options s = [] \<longrightarrow> initChart e s = s\<lparr>console := console s @ [Warn_init_no_options]\<rparr>)
   \<and> (options s \<noteq> [] \<and> \<not> canvas_found e \<longrightarrow>
        initChart e s = s\<lparr>console := console s @ [Err_init_no_canvas]\<rparr>)
   \<and> (options s \<noteq> [] \<and> canvas_found e \<and> chart s = Some k \<and> k < length (charts s) \<longrightarrow>
        destroyed (charts (initChart e s) ! k))
   \<and> (options s \<noteq> [] \<and> canvas_found e \<and> chart_ctor_ok e \<longrightarrow>
        chart (initChart e s) = Some (length (charts s))
        \<and> charts (initChart e s) ! length (charts s) =
            \<lparr>labels = map opt_text (options s), data = map opt_votes (options s),
             destroyed = False, update_calls = 0\<rparr>)"
proof -
  have "chart_inv (run evs (init ls))" by (rule run_chart_inv) (rule init_chart_inv)
  then have "length (live_charts (run evs (init ls))) \<le> Suc 0" by (rule chart_inv_live)
  then show ?thesis
    using initChart_destroys_prior[of s e k] initChart_creates[of s e]
    by (simp add: initChart_no_options initChart_no_canvas)
qed

text \<open>
  Instances of C7: a second \<^verbatim>\<open>initChart\<close> on the charted component destroys chart 0
  and makes chart 1 the current one; without options or without the canvas only a
  line is logged.
\<close>

theorem C7_single_live_chart_witness:
  "length (live_charts charted_A) \<le> 1
   \<and> initChart env_ok voted_B = voted_B\<lparr>console := console voted_B @ [Warn_init_no_options]\<rparr>
   \<and> initChart (env_ok\<lparr>canvas_found := False\<rparr>) charted_A =
       charted_A\<lparr>console := console charted_A @ [Err_init_no_canvas]\<rparr>
   \<and> destroyed (charts (initChart env_ok charted_A) ! 0)
   \<and> chart (initChart env_ok charted_A) = Some 1"
proof -
  note a = C7_single_live_chart [where evs = trace_charted and ls = None and s = charted_A
      and e = env_ok and k = 0]
  note b = C7_single_live_chart [where evs = "[]" and ls = None and s = voted_B
      and e = env_ok and k = 0]
  note c = C7_single_live_chart [where evs = "[]" and ls = None and s = charted_A
      and e = "env_ok\<lparr>canvas_found := False\<rparr>" and k = 0]
  have o: "options charted_A \<noteq> []" "chart charted_A = Some 0" "length (charts charted_A) = 1"
    by (simp_all add: charted_A_eq)
  have v: "options voted_B = []" by (simp add: voted_B_eq)
  have e: "canvas_found env_ok" "chart_ctor_ok env_ok" by (simp_all add: env_ok_def)
  have 1: "length (live_charts charted_A) \<le> 1" using a by (simp add: charted_A_def)
  have 2: "initChart env_ok voted_B = voted_B\<lparr>console := console voted_B @ [Warn_init_no_options]\<rparr>"
    using b v by blast
  have 3: "initChart (env_ok\<lparr>canvas_found := False\<rparr>) charted_A =
       charted_A\<lparr>console := console charted_A @ [Err_init_no_canvas]\<rparr>"
    using c o by simp
  have 4: "destroyed (charts (initChart env_ok charted_A) ! 0)" using a o e by simp
  have 5: "chart (initChart env_ok charted_A) = Some 1" using a o e by simp
  from 1 2 3 4 5 show ?thesis by blast
qed

subsection \<open>C8: updating the chart in place\<close>

text \<open>
  C8 as written fails where the snapshot is empty: after a vote whose refetch returned a
  body without \<^verbatim>\<open>Options\<close>, a chart exists and the options are empty; \<^verbatim>\<open>updateChart\<close>
  then leaves the labels of the chart as they were, which are not those of the current
  snapshot, and requests no redraw.
\<close>

theorem C8_empty_snapshot_not_drawn:
  "chart voted_B = Some 0 \<and> options voted_B = []
   \<and> labels (charts (updateChart env_ok voted_B) ! 0) = [Some (JStr ''Go''), Some (JStr ''Rust'')]
   \<and> labels (charts (updateChart env_ok voted_B) ! 0) \<noteq> map opt_text (options voted_B)
   \<and> update_calls (charts (updateChart env_ok voted_B) ! 0) = 0"
  by (simp add: voted_B_eq updateChart_def log_def)

text \<open>
  Claim C8, as amended. When a chart resource exists and the snapshot is not empty,
  \<^verbatim>\<open>updateChart\<close> sets the labels and the data of that same resource to the texts and
  vote counts of the current options and calls its \<^verbatim>\<open>update()\<close> once; the variable
  still holds the same resource, no resource is created or destroyed, every other
  resource and the options are unchanged. When no chart resource exists, or when one
  exists and the snapshot is empty, \<^verbatim>\<open>updateChart\<close> only logs a warning.
\<close>

theorem C8_update_in_place:
  "(chart s = Some k \<and> k < length (charts s) \<and> options s \<noteq> [] \<longrightarrow>
      chart (updateChart e s) = Some k
      \<and> length (charts (updateChart e s)) = length (charts s)
      \<and> charts (updateChart e s) ! k =
          (charts s ! k)\<lparr>labels := map opt_text (options s), data := map opt_votes (options s),
                          update_calls := update_calls (charts s ! k) + 1\<rparr>
      \<and> (\<forall>i<length (charts s). i \<noteq> k \<longrightarrow> charts (updateChart e s) ! i = charts s ! i)
      \<and> options (updateChart e s) = options s)
   \<and> (chart s = None \<longrightarrow> updateChart e s = s\<lparr>console := console s @ [Warn_update_no_chart]\<rparr>)
   \<and> (chart s = Some k \<and> options s = [] \<longrightarrow>
        updateChart e s = s\<lparr>console := console s @ [Warn_update_no_options]\<rparr>)"
  by (auto simp: updateChart_def log_def Let_def)

text \<open>
  Instances of C8 as amended: scenario D (the data become 4 and 5 on the same chart),
  an update before any chart exists, and an update with an empty snapshot.
\<close>

theorem C8_update_in_place_witness:
  "chart (onmessage env_ok (Parsed scenario_D) charted_A) = Some 0
   \<and> length (charts (onmessage env_ok (Parsed scenario_D) charted_A)) = 1
   \<and> data (charts (onmessage env_ok (Parsed scenario_D) charted_A) ! 0) =
       [Some (JNum 4), Some (JNum 5)]
   \<and> destroyed (charts (onmessage env_ok (Parsed scenario_D) charted_A) ! 0) = False
   \<and> updateChart env_ok mounted_A =
       mounted_A\<lparr>console := console mounted_A @ [Warn_update_no_chart]\<rparr>
   \<and> updateChart env_ok voted_B = voted_B\<lparr>console := console voted_B @ [Warn_update_no_options]\<rparr>"
proof -
  let ?s = "(log Log_sse_message charted_A)\<lparr>options := map canonical
              [server_record 1 ''Go'' 4, server_record 2 ''Rust'' 5]\<rparr>"
  note a = C8_update_in_place [where s = ?s and k = 0 and e = env_ok]
  note b = C8_update_in_place [where s = mounted_A and k = 0 and e = env_ok]
  note c = C8_update_in_place [where s = voted_B and k = 0 and e = env_ok]
  have m: "onmessage env_ok (Parsed scenario_D) charted_A = updateChart env_ok ?s"
    unfolding scenario_D_def by (rule onmessage_ok) (simp_all add: server_record_def)
  have p: "chart ?s = Some 0 \<and> 0 < length (charts ?s) \<and> options ?s \<noteq> []"
    by (simp add: charted_A_eq log_def)
  have q: "chart (updateChart env_ok ?s) = Some 0
      \<and> length (charts (updateChart env_ok ?s)) = length (charts ?s)
      \<and> charts (updateChart env_ok ?s) ! 0 =
          (charts ?s ! 0)\<lparr>labels := map opt_text (options ?s), data := map opt_votes (options ?s),
                          update_calls := update_calls (charts ?s ! 0) + 1\<rparr>"
    using a p by blast
  have 1: "chart (onmessage env_ok (Parsed scenario_D) charted_A) = Some 0
   \<and> length (charts (onmessage env_ok (Parsed scenario_D) charted_A)) = 1
   \<and> data (charts (onmessage env_ok (Parsed scenario_D) charted_A) ! 0) =
       [Some (JNum 4), Some (JNum 5)]
   \<and> destroyed (charts (onmessage env_ok (Parsed scenario_D) charted_A) ! 0) = False"
    using q by (simp add: m) (simp add: charted_A_eq log_def canonical_def server_record_def)
  have 2: "updateChart env_ok mounted_A =
       mounted_A\<lparr>console := console mounted_A @ [Warn_update_no_chart]\<rparr>"
    using b by (simp add: mounted_A_eq)
  have 3: "updateChart env_ok voted_B = voted_B\<lparr>console := console voted_B @ [Warn_update_no_options]\<rparr>"
    using c by (simp add: voted_B_eq)
  from 1 2 3 show ?thesis by blast
qed

subsection \<open>C9: the store is replaced, never merged\<close>

lemma fetchData_options_indep: "options (snd (fetchData r s)) = options (snd (fetchData r s'))"
  by (simp add: fetchData_def fetch_catch_def fetch_else_def log_def Let_def
      split: http_result.splits sum.splits option.splits json.splits)

lemma onmessage_options_idem:
  "options (onmessage e p (onmessage e' p s)) = options (onmessage e p s)"
  by (simp add: onmessage_def updateChart_frame log_def Let_def
      split: parse_result.splits json.splits sum.splits)

text \<open>
  Claim C9. The two assignments to \<^verbatim>\<open>options.value\<close> replace the whole list: after a
  fetch of a response whose \<^verbatim>\<open>Options\<close> is an array of records, and after a push
  message that is a non-empty array of records, the stored options are exactly the
  canonical snapshot of that array, whatever was stored before. Doing the same fetch
  or delivering the same message a second time leaves the stored options as after the
  first time, and neither touches the selection or the voted flag.
\<close>

theorem C9_full_replacement:
  "(map_of kvs ''Options'' = Some (JArr xs) \<and> JNull \<notin> set xs \<longrightarrow>
      options (snd (fetchData (NetOk (JObj kvs)) s)) = map canonical xs)
   \<and> (xs \<noteq> [] \<and> JNull \<notin> set xs \<longrightarrow>
        options (onmessage e (Parsed (JArr xs)) s) = map canonical xs)
   \<and> options (snd (fetchData r (snd (fetchData r s)))) = options (snd (fetchData r s))
   \<and> options (onmessage e p (onmessage e' p s)) = options (onmessage e p s)
   \<and> selected (snd (fetchData r s)) = selected s \<and> hasVoted (snd (fetchData r s)) = hasVoted s
   \<and> selected (onmessage e p s) = selected s \<and> hasVoted (onmessage e p s) = hasVoted s"
  using fetchData_options_indep[of r "snd (fetchData r s)" s]
  by (simp add: fetchData_ok onmessage_ok updateChart_frame onmessage_options_idem
      fetchData_frame onmessage_frame)

text \<open>Instances of C9: the fetch of scenario A over an empty store, the message of
  scenario D over the options of scenario A, once and twice.\<close>

theorem C9_full_replacement_witness:
  "options (snd (fetchData (NetOk scenario_A) voted_B)) = [poll_opt 1 ''Go'' 3, poll_opt 2 ''Rust'' 5]
   \<and> options (onmessage env_ok (Parsed scenario_D) charted_A) =
       [poll_opt 1 ''Go'' 4, poll_opt 2 ''Rust'' 5]
   \<and> options (onmessage env_ok (Parsed scenario_D) (onmessage env_ok (Parsed scenario_D) charted_A)) =
       [poll_opt 1 ''Go'' 4, poll_opt 2 ''Rust'' 5]"
proof -
  note a = C9_full_replacement [where
      kvs = "[(''Options'', JArr [server_record 1 ''Go'' 3, server_record 2 ''Rust'' 5])]"
      and xs = "[server_record 1 ''Go'' 3, server_record 2 ''Rust'' 5]" and s = voted_B
      and e = env_ok and e' = env_ok and r = NetFail and p = ParseError]
  note b = C9_full_replacement [where kvs = "[]"
      and xs = "[server_record 1 ''Go'' 4, server_record 2 ''Rust'' 5]" and s = charted_A
      and e = env_ok and e' = env_ok and r = NetFail and p = "Parsed scenario_D"]
  have 1: "options (snd (fetchData (NetOk scenario_A) voted_B)) =
      [poll_opt 1 ''Go'' 3, poll_opt 2 ''Rust'' 5]"
    using a by (simp add: scenario_A_def server_record_def canonical_def poll_opt_def)
  have 2: "options (onmessage env_ok (Parsed scenario_D) charted_A) =
       [poll_opt 1 ''Go'' 4, poll_opt 2 ''Rust'' 5]"
    using b by (simp add: scenario_D_def server_record_def canonical_def poll_opt_def)
  have 3: "options (onmessage env_ok (Parsed scenario_D)
              (onmessage env_ok (Parsed scenario_D) charted_A)) =
           options (onmessage env_ok (Parsed scenario_D) charted_A)"
    using b by blast
  from 1 2 3 show ?thesis by simp
qed

subsection \<open>C10: the option with identifier 0\<close>

text \<open>
  Claim C10. With the identifier 0 selected, \<^verbatim>\<open>submitVote\<close> changes nothing: no
  request is issued and no state changes, whatever the voted flag. In no state the
  component reaches has a vote request for the identifier 0 been issued.
\<close>

theorem C10_id_zero_never_voted:
  "(selected s = Some (JNum 0) \<longrightarrow> submitVote e p r s = s)
   \<and> VotePost (Some (JNum 0)) \<notin> set (requests (run evs (init ls)))"
proof -
  have "vote_inv (run evs (init ls))" by (rule run_vote_inv) (rule init_vote_inv)
  then have "VotePost (Some (JNum 0)) \<notin> set (requests (run evs (init ls)))"
    by (auto simp: vote_inv_def)
  then show ?thesis by (simp add: submitVote_def)
qed

text \<open>
  Instance of C10: the first option of the poll has identifier 0, the user clicks it and
  presses the button; nothing changes and no vote request is issued.
\<close>

theorem C10_id_zero_never_voted_witness:
  "selected selected_zero = Some (JNum 0) \<and> \<not> hasVoted selected_zero
   \<and> submitVote env_ok True (NetOk scenario_Z) selected_zero = selected_zero
   \<and> VotePost (Some (JNum 0)) \<notin>
       set (requests (run (trace_zero @ [(env_ok, SubmitVote True (NetOk scenario_Z))]) (init None)))"
proof -
  note a = C10_id_zero_never_voted [where s = selected_zero and e = env_ok and p = True
      and r = "NetOk scenario_Z"
      and evs = "trace_zero @ [(env_ok, SubmitVote True (NetOk scenario_Z))]" and ls = None]
  have s: "selected selected_zero = Some (JNum 0)" "\<not> hasVoted selected_zero"
    by (simp_all add: selected_zero_eq)
  from a s show ?thesis by blast
qed

end
